theory Spec2Isabelle
  imports Complex_Main "HOL-Library.AList"
begin

section \<open>Data model (core/memory.py, storage/base.py)\<close>

text \<open>
  A UUID is kept in its canonical textual form, a timestamp as a number of
  microseconds (the resolution of Python's datetime). The components of an embedding
  and the scores are real numbers: the values that finite Python floats denote.
\<close>

type_synonym UUID = string
type_synonym datetime = int

datatype Importance = Low | Medium | High

record MemoryMetadata =
  category :: string
  tags :: "string list"
  importance :: Importance
  custom_fields :: "(string \<times> string) list"

datatype RelationshipType = Related | Supersedes | Contradicts | Extends

record MemoryRelationship =
  target_id :: UUID
  relationship_type :: RelationshipType
  strength :: real

text \<open>The fields of MemoryVersion carry the prefix \<open>v_\<close>: Memory has a content and a
  version of its own.\<close>

record MemoryVersion =
  v_version :: int
  v_created_at :: datetime
  v_content :: string
  v_changed_fields :: "string list"

record Memory =
  mem_id :: UUID
  content :: string
  metadata :: MemoryMetadata
  embedding :: "real list option"
  tenant_id :: string
  created_at :: datetime
  updated_at :: datetime
  expires_at :: "datetime option"
  relationships :: "MemoryRelationship list"
  versions :: "MemoryVersion list"
  version :: int

record SearchResult =
  memory :: Memory
  score :: real
  result_metadata :: "(string \<times> string) list"

text \<open>The filter dictionary: the two keys the backend looks at, each present or not.\<close>

record Filters =
  filter_category :: "string option"
  filter_tags :: "string list option"

section \<open>Exceptions (exceptions/*.py)\<close>

text \<open>
  One constructor per exception class that can reach a caller. \<open>ValueError\<close> (raised
  by \<open>list.remove\<close>) and \<open>OverflowError\<close> (raised by datetime arithmetic) are
  Python's own, \<open>PydanticValidationError\<close> is the one pydantic raises when a field
  constraint fails.
\<close>

datatype error =
    StorageConnectionError string
  | StorageOperationError string
  | StorageNotFoundError string
  | EmbeddingModelError string
  | EmbeddingDimensionError string
  | InvalidMemoryError (message: string) (field: "string option")
  | InvalidQueryError (message: string) (query: string)
  | ValueError
  | OverflowError
  | PydanticValidationError

text \<open>\<open>isinstance(e, ValidationError)\<close>: the subclasses declared in exceptions/validation.py.\<close>

fun is_ValidationError :: "error \<Rightarrow> bool" where
  "is_ValidationError (InvalidMemoryError _ _) = True"
| "is_ValidationError (InvalidQueryError _ _) = True"
| "is_ValidationError _ = False"

text \<open>\<open>isinstance(e, StorageError)\<close>: the subclasses declared in exceptions/storage.py.\<close>

fun is_StorageError :: "error \<Rightarrow> bool" where
  "is_StorageError (StorageConnectionError _) = True"
| "is_StorageError (StorageOperationError _) = True"
| "is_StorageError (StorageNotFoundError _) = True"
| "is_StorageError _ = False"

text \<open>The only not-found class of the hierarchy is StorageNotFoundError.\<close>

fun is_NotFoundError :: "error \<Rightarrow> bool" where
  "is_NotFoundError (StorageNotFoundError _) = True"
| "is_NotFoundError _ = False"

fun is_OperationError :: "error \<Rightarrow> bool" where
  "is_OperationError (StorageOperationError _) = True"
| "is_OperationError _ = False"

text \<open>The \<open>error_code\<close> attribute each class sets in its constructor.\<close>

fun error_code :: "error \<Rightarrow> string" where
  "error_code (StorageConnectionError _) = ''STORAGE_CONNECTION_ERROR''"
| "error_code (StorageOperationError _) = ''STORAGE_OPERATION_ERROR''"
| "error_code (StorageNotFoundError _) = ''STORAGE_NOT_FOUND''"
| "error_code (EmbeddingModelError _) = ''EMBEDDING_MODEL_ERROR''"
| "error_code (EmbeddingDimensionError _) = ''EMBEDDING_DIMENSION_ERROR''"
| "error_code (InvalidMemoryError _ _) = ''INVALID_MEMORY''"
| "error_code (InvalidQueryError _ _) = ''INVALID_QUERY''"
| "error_code ValueError = ''''"
| "error_code OverflowError = ''''"
| "error_code PydanticValidationError = ''''"

section \<open>Python list slicing\<close>

text \<open>
  \<open>xs[start:stop]\<close> with integer bounds: a negative bound counts from the end, and
  every bound is clamped into \<open>0 .. len(xs)\<close>.
\<close>

definition slice_bound :: "nat \<Rightarrow> int \<Rightarrow> nat" where
  "slice_bound n i =
     (if i < 0 then (if int n + i < 0 then 0 else nat (int n + i))
      else (if int n < i then n else nat i))"

definition py_slice :: "'a list \<Rightarrow> int \<Rightarrow> int \<Rightarrow> 'a list" where
  "py_slice xs start stop =
     (let lo = slice_bound (length xs) start; hi = slice_bound (length xs) stop
      in drop lo (take hi xs))"

text \<open>\<open>xs[:stop]\<close>\<close>

definition py_slice_to :: "'a list \<Rightarrow> int \<Rightarrow> 'a list" where
  "py_slice_to xs stop = take (slice_bound (length xs) stop) xs"

section \<open>The in-memory storage backend (storage/memory_backend.py)\<close>

text \<open>
  Both dictionaries are association lists with distinct keys in insertion order, which
  is the order a Python dict iterates in: assigning to a present key keeps its place,
  assigning to a new key appends (\<open>AList.update\<close>), \<open>pop\<close> removes the entry
  (\<open>AList.delete\<close>). Every operation returns \<open>Inr\<close>: none of them raises, and the
  sum type is the shape the manager's \<open>try/except\<close> around them expects.
\<close>

record InMemoryBackend =
  memories :: "((UUID \<times> string) \<times> Memory) list"
  embeddings :: "((UUID \<times> string) \<times> real list) list"

definition backend_init :: InMemoryBackend where
  "backend_init = \<lparr>memories = [], embeddings = []\<rparr>"

text \<open>Truth value of \<open>memory.embedding\<close>: neither None nor the empty list.\<close>

fun truthy_embedding :: "real list option \<Rightarrow> bool" where
  "truthy_embedding None = False"
| "truthy_embedding (Some e) = (e \<noteq> [])"

definition storage_save :: "InMemoryBackend \<Rightarrow> Memory \<Rightarrow> error + InMemoryBackend" where
  "storage_save b m =
     (let key = (mem_id m, tenant_id m);
          b1 = b\<lparr>memories := AList.update key m (memories b)\<rparr>
      in Inr (if truthy_embedding (embedding m)
              then b1\<lparr>embeddings := AList.update key (the (embedding m)) (embeddings b1)\<rparr>
              else b1))"

definition storage_get :: "InMemoryBackend \<Rightarrow> UUID \<Rightarrow> string \<Rightarrow> error + Memory option" where
  "storage_get b memory_id tenant = Inr (map_of (memories b) (memory_id, tenant))"

definition storage_delete :: "InMemoryBackend \<Rightarrow> UUID \<Rightarrow> string \<Rightarrow> error + InMemoryBackend" where
  "storage_delete b memory_id tenant =
     (let key = (memory_id, tenant)
      in Inr (b\<lparr>memories := AList.delete key (memories b),
                embeddings := AList.delete key (embeddings b)\<rparr>))"

definition storage_close :: "InMemoryBackend \<Rightarrow> error + InMemoryBackend" where
  "storage_close b = Inr (b\<lparr>memories := [], embeddings := []\<rparr>)"

subsection \<open>Similarity\<close>

text \<open>
  The arithmetic of \<open>_cosine_similarity\<close> is written over the reals. The code computes
  in IEEE doubles, which round, underflow to zero and overflow to infinity, so the
  number computed here is the exact counterpart of the code's score and not the score
  itself; the two agree where no operation rounds, as on the vectors of zeros and ones
  used below. No property below is about the value of a score: they are about which
  memories are returned and how many.
\<close>

definition dot_product :: "real list \<Rightarrow> real list \<Rightarrow> real" where
  "dot_product vec1 vec2 = sum_list (map (\<lambda>(a, b). a * b) (zip vec1 vec2))"

definition magnitude :: "real list \<Rightarrow> real" where
  "magnitude vec = sqrt (sum_list (map (\<lambda>a. a * a) vec))"

definition cosine_similarity :: "real list \<Rightarrow> real list \<Rightarrow> real" where
  "cosine_similarity vec1 vec2 =
     (let magnitude1 = magnitude vec1; magnitude2 = magnitude vec2
      in if magnitude1 = 0 \<or> magnitude2 = 0 then 0
         else dot_product vec1 vec2 / (magnitude1 * magnitude2))"

subsection \<open>Filters\<close>

text \<open>The two \<open>continue\<close> tests of \<open>_apply_filters\<close> and \<open>_apply_filters_to_memories\<close>.\<close>

definition category_excluded :: "Filters \<Rightarrow> Memory \<Rightarrow> bool" where
  "category_excluded f m =
     (case filter_category f of None \<Rightarrow> False | Some c \<Rightarrow> category (metadata m) \<noteq> c)"

definition tags_excluded :: "Filters \<Rightarrow> Memory \<Rightarrow> bool" where
  "tags_excluded f m =
     (case filter_tags f of None \<Rightarrow> False
      | Some required_tags \<Rightarrow> \<not> set required_tags \<subseteq> set (tags (metadata m)))"

fun apply_filters :: "SearchResult list \<Rightarrow> Filters \<Rightarrow> SearchResult list" where
  "apply_filters [] f = []"
| "apply_filters (r # rs) f =
     (if category_excluded f (memory r) then apply_filters rs f
      else if tags_excluded f (memory r) then apply_filters rs f
      else r # apply_filters rs f)"

fun apply_filters_to_memories :: "Memory list \<Rightarrow> Filters \<Rightarrow> Memory list" where
  "apply_filters_to_memories [] f = []"
| "apply_filters_to_memories (m # ms) f =
     (if category_excluded f m then apply_filters_to_memories ms f
      else if tags_excluded f m then apply_filters_to_memories ms f
      else m # apply_filters_to_memories ms f)"

subsection \<open>search, list, count\<close>

text \<open>The loop of \<open>search\<close> over \<open>self._memories.items()\<close>.\<close>

fun scored_candidates ::
  "real list \<Rightarrow> string \<Rightarrow> ((UUID \<times> string) \<times> Memory) list \<Rightarrow> SearchResult list" where
  "scored_candidates query_embedding tenant [] = []"
| "scored_candidates query_embedding tenant (((mid, t), m) # rest) =
     (if t \<noteq> tenant then scored_candidates query_embedding tenant rest
      else if truthy_embedding (embedding m)
        then \<lparr>memory = m, score = cosine_similarity query_embedding (the (embedding m)),
              result_metadata = []\<rparr> # scored_candidates query_embedding tenant rest
      else scored_candidates query_embedding tenant rest)"

text \<open>
  \<open>results.sort(key=..., reverse=True)\<close>: descending by score, and results of equal
  score keep their order (CPython reverses the list, sorts it stably, reverses it back).
\<close>

definition sort_by_score_desc :: "SearchResult list \<Rightarrow> SearchResult list" where
  "sort_by_score_desc results = rev (sort_key score (rev results))"

text \<open>The value of \<open>results\<close> when \<open>search\<close> reaches its return statement.\<close>

definition ranked_results ::
  "InMemoryBackend \<Rightarrow> real list \<Rightarrow> string \<Rightarrow> Filters option \<Rightarrow> SearchResult list" where
  "ranked_results b query_embedding tenant filters =
     (let results = scored_candidates query_embedding tenant (memories b);
          results = (case filters of None \<Rightarrow> results | Some f \<Rightarrow> apply_filters results f)
      in sort_by_score_desc results)"

definition storage_search ::
  "InMemoryBackend \<Rightarrow> real list \<Rightarrow> string \<Rightarrow> int \<Rightarrow> Filters option \<Rightarrow> error + SearchResult list" where
  "storage_search b query_embedding tenant limit filters =
     Inr (py_slice_to (ranked_results b query_embedding tenant filters) limit)"

text \<open>The list comprehension shared by \<open>list\<close> and \<open>count\<close>.\<close>

definition tenant_memories :: "InMemoryBackend \<Rightarrow> string \<Rightarrow> Filters option \<Rightarrow> Memory list" where
  "tenant_memories b tenant filters =
     (let ms = map snd (filter (\<lambda>((mid, t), m). t = tenant) (memories b))
      in case filters of None \<Rightarrow> ms | Some f \<Rightarrow> apply_filters_to_memories ms f)"

definition storage_list ::
  "InMemoryBackend \<Rightarrow> string \<Rightarrow> int \<Rightarrow> int \<Rightarrow> Filters option \<Rightarrow> error + Memory list" where
  "storage_list b tenant limit offset filters =
     Inr (py_slice (tenant_memories b tenant filters) offset (offset + limit))"

definition storage_count :: "InMemoryBackend \<Rightarrow> string \<Rightarrow> Filters option \<Rightarrow> error + int" where
  "storage_count b tenant filters = Inr (int (length (tenant_memories b tenant filters)))"

section \<open>Memory methods (core/memory.py)\<close>

text \<open>
  \<open>create_version\<close> builds a MemoryVersion, whose field \<open>version\<close> is declared
  \<open>ge=1\<close>: pydantic raises when the memory's counter is below 1. The current time is
  the argument \<open>now\<close>, read after the version record is appended.
\<close>

definition create_version :: "string list option \<Rightarrow> datetime \<Rightarrow> Memory \<Rightarrow> error + Memory" where
  "create_version changed_fields now m =
     (let changed = (case changed_fields of None \<Rightarrow> [''content''] | Some c \<Rightarrow> c)
      in if version m < 1 then Inl PydanticValidationError
         else Inr (m\<lparr>versions := versions m @
                        [\<lparr>v_version = version m, v_created_at = updated_at m,
                          v_content = content m, v_changed_fields = changed\<rparr>],
                      version := version m + 1,
                      updated_at := now\<rparr>))"

text \<open>
  \<open>timedelta(days=d)\<close> raises OverflowError when \<open>d\<close> is beyond 999999999 in
  magnitude, and adding a timedelta raises it when the sum leaves the years 1 to 9999.
  The two bounds are \<open>datetime.min\<close> and \<open>datetime.max\<close> in microseconds from the
  epoch.
\<close>

definition timedelta_days :: "int \<Rightarrow> error + int" where
  "timedelta_days days =
     (if days < - 999999999 \<or> 999999999 < days then Inl OverflowError
      else Inr (days * 86400000000))"

definition datetime_min :: datetime where
  "datetime_min = - 62135596800000000"

definition datetime_max :: datetime where
  "datetime_max = 253402300799999999"

definition datetime_add :: "datetime \<Rightarrow> int \<Rightarrow> error + datetime" where
  "datetime_add t delta =
     (if t + delta < datetime_min \<or> datetime_max < t + delta then Inl OverflowError
      else Inr (t + delta))"

definition set_ttl :: "int \<Rightarrow> datetime \<Rightarrow> Memory \<Rightarrow> error + Memory" where
  "set_ttl days now m =
     (case timedelta_days days of
        Inl e \<Rightarrow> Inl e
      | Inr delta \<Rightarrow>
          (case datetime_add now delta of
             Inl e \<Rightarrow> Inl e
           | Inr t \<Rightarrow> Inr (m\<lparr>expires_at := Some t\<rparr>)))"

definition is_expired :: "datetime \<Rightarrow> Memory \<Rightarrow> bool" where
  "is_expired now m = (case expires_at m of None \<Rightarrow> False | Some t \<Rightarrow> t < now)"

section \<open>Strings\<close>

text \<open>
  \<open>str.strip()\<close> on characters read as code points 0 to 255: the whitespace of Python's
  \<open>str\<close> in that range is 9 to 13, 28 to 32, 133 and 160.
\<close>

definition isspace :: "char \<Rightarrow> bool" where
  "isspace c = (let n = (of_char c :: nat)
                in (9 \<le> n \<and> n \<le> 13) \<or> (28 \<le> n \<and> n \<le> 32) \<or> n = 133 \<or> n = 160)"

definition strip :: "string \<Rightarrow> string" where
  "strip s = rev (dropWhile isspace (rev (dropWhile isspace s)))"

section \<open>The event bus (events/base.py, events/memory_events.py)\<close>

text \<open>Each event carries its \<open>event_id\<close> and \<open>timestamp\<close> first, then its own payload.\<close>

datatype Event =
    MemoryCreatedEvent UUID datetime Memory
  | MemoryUpdatedEvent UUID datetime Memory int
  | MemoryDeletedEvent UUID datetime UUID string
  | MemorySearchedEvent UUID datetime string int string

fun event_type :: "Event \<Rightarrow> string" where
  "event_type (MemoryCreatedEvent _ _ _) = ''memory.created''"
| "event_type (MemoryUpdatedEvent _ _ _ _) = ''memory.updated''"
| "event_type (MemoryDeletedEvent _ _ _ _) = ''memory.deleted''"
| "event_type (MemorySearchedEvent _ _ _ _ _) = ''memory.searched''"

fun event_tenant_id :: "Event \<Rightarrow> string" where
  "event_tenant_id (MemoryCreatedEvent _ _ m) = tenant_id m"
| "event_tenant_id (MemoryUpdatedEvent _ _ m _) = tenant_id m"
| "event_tenant_id (MemoryDeletedEvent _ _ _ t) = t"
| "event_tenant_id (MemorySearchedEvent _ _ _ _ t) = t"

text \<open>
  The registry of SimpleEventBus: event type to the list of its handlers, in
  subscription order. A handler is a value of any type with equality, which is all
  that \<open>list.remove\<close> asks of it.
\<close>

record 'h SimpleEventBus =
  handlers :: "(string \<times> 'h list) list"

definition bus_init :: "'h SimpleEventBus" where
  "bus_init = \<lparr>handlers = []\<rparr>"

definition subscribe :: "'h SimpleEventBus \<Rightarrow> string \<Rightarrow> 'h \<Rightarrow> 'h SimpleEventBus" where
  "subscribe bus etype handler =
     (let hs = (case map_of (handlers bus) etype of None \<Rightarrow> [] | Some l \<Rightarrow> l)
      in bus\<lparr>handlers := AList.update etype (hs @ [handler]) (handlers bus)\<rparr>)"

text \<open>\<open>list.remove(x)\<close> removes the first element equal to \<open>x\<close> and raises ValueError
  when there is none.\<close>

definition list_remove :: "'a list \<Rightarrow> 'a \<Rightarrow> error + 'a list" where
  "list_remove xs x = (if x \<in> set xs then Inr (remove1 x xs) else Inl ValueError)"

definition unsubscribe :: "'h SimpleEventBus \<Rightarrow> string \<Rightarrow> 'h \<Rightarrow> error + 'h SimpleEventBus" where
  "unsubscribe bus etype handler =
     (case map_of (handlers bus) etype of
        None \<Rightarrow> Inr bus
      | Some hs \<Rightarrow>
          (case list_remove hs handler of
             Inl e \<Rightarrow> Inl e
           | Inr hs' \<Rightarrow> Inr (bus\<lparr>handlers := AList.update etype hs' (handlers bus)\<rparr>)))"

section \<open>The memory manager (core/memory_manager.py)\<close>

text \<open>
  The collaborators outside the repository are an environment: the outcome of the
  n-th call of the embedding service, the n-th reading of the clock and the n-th UUID
  drawn. The manager's state counts the calls made so far.
\<close>

record Env =
  embed :: "nat \<Rightarrow> string \<Rightarrow> error + real list"
  utcnow :: "nat \<Rightarrow> datetime"
  uuid4 :: "nat \<Rightarrow> UUID"

record Settings =
  settings_tenant_id :: string
  default_ttl_days :: "int option"
  enable_versioning :: bool

datatype Metric =
    OperationMetric string string string
  | EmbeddingMetric string
  | SearchMetric string

text \<open>
  \<open>published\<close> is the sequence of events handed to \<open>event_bus.publish\<close>; \<open>metrics\<close> is
  None when the manager has no collector, otherwise what the collector was told
  (durations left out).
\<close>

record MemoryManager =
  storage :: InMemoryBackend
  settings :: Settings
  published :: "Event list"
  metrics :: "Metric list option"
  embed_calls :: nat
  clock_reads :: nat
  uuid_draws :: nat

definition read_clock :: "Env \<Rightarrow> MemoryManager \<Rightarrow> datetime \<times> MemoryManager" where
  "read_clock env mgr = (utcnow env (clock_reads mgr), mgr\<lparr>clock_reads := Suc (clock_reads mgr)\<rparr>)"

definition draw_uuid :: "Env \<Rightarrow> MemoryManager \<Rightarrow> UUID \<times> MemoryManager" where
  "draw_uuid env mgr = (uuid4 env (uuid_draws mgr), mgr\<lparr>uuid_draws := Suc (uuid_draws mgr)\<rparr>)"

definition record_metric :: "Metric \<Rightarrow> MemoryManager \<Rightarrow> MemoryManager" where
  "record_metric x mgr = mgr\<lparr>metrics := map_option (\<lambda>log. log @ [x]) (metrics mgr)\<rparr>"

definition publish :: "Event \<Rightarrow> MemoryManager \<Rightarrow> MemoryManager" where
  "publish ev mgr = mgr\<lparr>published := published mgr @ [ev]\<rparr>"

text \<open>\<open>tenant_id or self.settings.tenant_id\<close>: None and the empty string both fall back.\<close>

definition resolve_tenant :: "MemoryManager \<Rightarrow> string option \<Rightarrow> string" where
  "resolve_tenant mgr tenant =
     (case tenant of None \<Rightarrow> settings_tenant_id (settings mgr)
      | Some t \<Rightarrow> if t = [] then settings_tenant_id (settings mgr) else t)"

definition default_metadata :: MemoryMetadata where
  "default_metadata = \<lparr>category = ''general'', tags = [], importance = Medium, custom_fields = []\<rparr>"

subsection \<open>The two retried calls\<close>

text \<open>One call of \<open>_generate_embedding_with_retry\<close>'s body.\<close>

definition embed_once :: "Env \<Rightarrow> string \<Rightarrow> MemoryManager \<Rightarrow> (error + real list) \<times> MemoryManager" where
  "embed_once env text mgr =
     (let mgr1 = mgr\<lparr>embed_calls := Suc (embed_calls mgr)\<rparr>
      in case embed env (embed_calls mgr) text of
           Inl e \<Rightarrow> (Inl e, mgr1)
         | Inr v \<Rightarrow> (Inr v, record_metric (EmbeddingMetric ''success'') mgr1))"

text \<open>\<open>embed_attempts k\<close>: one attempt and up to \<open>k\<close> further ones; the last failure is
  raised again.\<close>

primrec embed_attempts ::
  "nat \<Rightarrow> Env \<Rightarrow> string \<Rightarrow> MemoryManager \<Rightarrow> (error + real list) \<times> MemoryManager" where
  "embed_attempts 0 env text mgr = embed_once env text mgr"
| "embed_attempts (Suc k) env text mgr =
     (case embed_once env text mgr of
        (Inr v, mgr1) \<Rightarrow> (Inr v, mgr1)
      | (Inl e, mgr1) \<Rightarrow> embed_attempts k env text mgr1)"

text \<open>\<open>stop_after_attempt(3)\<close>\<close>

definition generate_embedding_with_retry ::
  "Env \<Rightarrow> string \<Rightarrow> MemoryManager \<Rightarrow> (error + real list) \<times> MemoryManager" where
  "generate_embedding_with_retry env text mgr = embed_attempts 2 env text mgr"

primrec save_attempts :: "nat \<Rightarrow> InMemoryBackend \<Rightarrow> Memory \<Rightarrow> error + InMemoryBackend" where
  "save_attempts 0 b m = storage_save b m"
| "save_attempts (Suc k) b m =
     (case storage_save b m of Inr b1 \<Rightarrow> Inr b1 | Inl e \<Rightarrow> save_attempts k b m)"

definition save_with_retry :: "InMemoryBackend \<Rightarrow> Memory \<Rightarrow> error + InMemoryBackend" where
  "save_with_retry b m = save_attempts 2 b m"

subsection \<open>save\<close>

definition new_memory :: "Env \<Rightarrow> string \<Rightarrow> MemoryMetadata \<Rightarrow> string \<Rightarrow> MemoryManager \<Rightarrow> Memory \<times> MemoryManager" where
  "new_memory env text md tenant mgr =
     (let (uid, mgr1) = draw_uuid env mgr;
          (t1, mgr2) = read_clock env mgr1;
          (t2, mgr3) = read_clock env mgr2
      in (\<lparr>mem_id = uid, content = strip text, metadata = md, embedding = None,
           tenant_id = tenant, created_at = t1, updated_at = t2, expires_at = None,
           relationships = [], versions = [], version = 1\<rparr>, mgr3))"

text \<open>\<open>if ttl_days: ... elif self.settings.default_ttl_days: ...\<close>: None and 0 are false.\<close>

definition chosen_ttl :: "MemoryManager \<Rightarrow> int option \<Rightarrow> int option" where
  "chosen_ttl mgr ttl_days =
     (if ttl_days \<noteq> None \<and> ttl_days \<noteq> Some 0 then ttl_days
      else if default_ttl_days (settings mgr) \<noteq> None \<and> default_ttl_days (settings mgr) \<noteq> Some 0
        then default_ttl_days (settings mgr)
      else None)"

text \<open>The block "Set TTL if provided"; an OverflowError of \<open>set_ttl\<close> leaves \<open>save\<close>.\<close>

definition apply_ttl ::
  "Env \<Rightarrow> int option \<Rightarrow> Memory \<Rightarrow> MemoryManager \<Rightarrow> (error + Memory) \<times> MemoryManager" where
  "apply_ttl env ttl_days m mgr =
     (case chosen_ttl mgr ttl_days of
        None \<Rightarrow> (Inr m, mgr)
      | Some days \<Rightarrow> (let (now, mgr1) = read_clock env mgr in (set_ttl days now m, mgr1)))"

text \<open>The block "Generate embedding if needed": a failure is logged and counted, and the
  memory goes on without embedding.\<close>

definition embed_new ::
  "Env \<Rightarrow> bool \<Rightarrow> string \<Rightarrow> Memory \<Rightarrow> MemoryManager \<Rightarrow> Memory \<times> MemoryManager" where
  "embed_new env generate_embedding text m mgr =
     (if generate_embedding
      then (case generate_embedding_with_retry env text mgr of
              (Inr v, mgr1) \<Rightarrow> (m\<lparr>embedding := Some v\<rparr>, mgr1)
            | (Inl e, mgr1) \<Rightarrow> (m, record_metric (EmbeddingMetric ''error'') mgr1))
      else (m, mgr))"

text \<open>The blocks "Save to storage with retry" and "Publish event".\<close>

definition persist_new ::
  "Env \<Rightarrow> string \<Rightarrow> Memory \<Rightarrow> MemoryManager \<Rightarrow> (error + Memory) \<times> MemoryManager" where
  "persist_new env tenant m mgr =
     (case save_with_retry (storage mgr) m of
        Inl e \<Rightarrow> (Inl e, record_metric (OperationMetric ''save'' tenant ''error'') mgr)
      | Inr b \<Rightarrow>
          (let mgr1 = record_metric (OperationMetric ''save'' tenant ''success'') (mgr\<lparr>storage := b\<rparr>);
               (eid, mgr2) = draw_uuid env mgr1;
               (ts, mgr3) = read_clock env mgr2
           in (Inr m, publish (MemoryCreatedEvent eid ts m) mgr3)))"

definition manager_save ::
  "Env \<Rightarrow> MemoryManager \<Rightarrow> string \<Rightarrow> MemoryMetadata option \<Rightarrow> string option \<Rightarrow> bool \<Rightarrow> int option
     \<Rightarrow> (error + Memory) \<times> MemoryManager" where
  "manager_save env mgr text md tenant generate_embedding ttl_days =
     (let tenant = resolve_tenant mgr tenant
      in if text = [] \<or> strip text = []
         then (Inl (InvalidMemoryError ''Memory content cannot be empty'' (Some ''content'')), mgr)
         else
           let (m, mgr1) = new_memory env text (case md of None \<Rightarrow> default_metadata | Some x \<Rightarrow> x)
                             tenant mgr
           in case apply_ttl env ttl_days m mgr1 of
                (Inl e, mgr2) \<Rightarrow> (Inl e, mgr2)
              | (Inr m, mgr2) \<Rightarrow>
                  (let (m, mgr3) = embed_new env generate_embedding text m mgr2
                   in persist_new env tenant m mgr3))"

subsection \<open>get\<close>

definition manager_get ::
  "MemoryManager \<Rightarrow> UUID \<Rightarrow> string option \<Rightarrow> (error + Memory option) \<times> MemoryManager" where
  "manager_get mgr memory_id tenant =
     (let tenant = resolve_tenant mgr tenant
      in case storage_get (storage mgr) memory_id tenant of
           Inr (Some m) \<Rightarrow> (Inr (Some m), record_metric (OperationMetric ''get'' tenant ''success'') mgr)
         | Inr None \<Rightarrow> (Inr None, record_metric (OperationMetric ''get'' tenant ''not_found'') mgr)
         | Inl e \<Rightarrow> (Inl e, record_metric (OperationMetric ''get'' tenant ''error'') mgr))"

subsection \<open>update\<close>

text \<open>
  \<open>update\<close> changes the object that \<open>get\<close> returned, and that object is the one the
  backend's dictionary holds: a change of a field is a change of the stored entry, also
  on the paths that raise before \<open>save\<close>. \<open>write_through\<close> is that change.
\<close>

definition write_through :: "UUID \<times> string \<Rightarrow> Memory \<Rightarrow> MemoryManager \<Rightarrow> MemoryManager" where
  "write_through key m mgr =
     mgr\<lparr>storage := (storage mgr)\<lparr>memories := AList.update key m (memories (storage mgr))\<rparr>\<rparr>"

text \<open>\<open>if content:\<close> is false for None and for the empty string.\<close>

fun truthy_text :: "string option \<Rightarrow> bool" where
  "truthy_text None = False"
| "truthy_text (Some s) = (s \<noteq> [])"

definition changed_fields_of :: "string option \<Rightarrow> MemoryMetadata option \<Rightarrow> string list" where
  "changed_fields_of text md =
     (if truthy_text text then [''content''] else []) @
     (if md \<noteq> None then [''metadata''] else [])"

text \<open>The block "Update fields": the content check, the new content and embedding, the
  new metadata. A failed embedding is logged and the old embedding kept.\<close>

definition update_fields ::
  "Env \<Rightarrow> string option \<Rightarrow> MemoryMetadata option \<Rightarrow> Memory \<Rightarrow> MemoryManager
     \<Rightarrow> (error + Memory) \<times> MemoryManager" where
  "update_fields env text md m mgr =
     (if truthy_text text \<and> strip (the text) = []
      then (Inl (InvalidMemoryError ''Memory content cannot be empty'' (Some ''content'')), mgr)
      else
        let (m1, mgr1) =
              (if truthy_text text
               then (case generate_embedding_with_retry env (the text) mgr of
                       (Inr v, mgr') \<Rightarrow> (m\<lparr>content := strip (the text), embedding := Some v\<rparr>, mgr')
                     | (Inl e, mgr') \<Rightarrow> (m\<lparr>content := strip (the text)\<rparr>, mgr'))
               else (m, mgr))
        in (Inr (case md of None \<Rightarrow> m1 | Some x \<Rightarrow> m1\<lparr>metadata := x\<rparr>), mgr1))"

text \<open>The block "Create version if enabled".\<close>

definition snapshot_version ::
  "Env \<Rightarrow> string option \<Rightarrow> MemoryMetadata option \<Rightarrow> Memory \<Rightarrow> MemoryManager
     \<Rightarrow> (error + Memory) \<times> MemoryManager" where
  "snapshot_version env text md m mgr =
     (if enable_versioning (settings mgr)
      then (let (now, mgr1) = read_clock env mgr
            in (create_version (Some (changed_fields_of text md)) now m, mgr1))
      else (Inr m, mgr))"

text \<open>The blocks "Save updated memory" and "Publish event".\<close>

definition persist_update ::
  "Env \<Rightarrow> string \<Rightarrow> int \<Rightarrow> Memory \<Rightarrow> MemoryManager \<Rightarrow> (error + Memory) \<times> MemoryManager" where
  "persist_update env tenant previous_version m mgr =
     (case save_with_retry (storage mgr) m of
        Inl e \<Rightarrow> (Inl e, record_metric (OperationMetric ''update'' tenant ''error'') mgr)
      | Inr b \<Rightarrow>
          (let mgr1 = record_metric (OperationMetric ''update'' tenant ''success'') (mgr\<lparr>storage := b\<rparr>);
               (eid, mgr2) = draw_uuid env mgr1;
               (ts, mgr3) = read_clock env mgr2
           in (Inr m, publish (MemoryUpdatedEvent eid ts m previous_version) mgr3)))"

definition manager_update ::
  "Env \<Rightarrow> MemoryManager \<Rightarrow> UUID \<Rightarrow> string option \<Rightarrow> MemoryMetadata option \<Rightarrow> string option
     \<Rightarrow> (error + Memory) \<times> MemoryManager" where
  "manager_update env mgr memory_id text md tenant =
     (let tenant = resolve_tenant mgr tenant
      in case manager_get mgr memory_id (Some tenant) of
           (Inl e, mgr1) \<Rightarrow> (Inl e, mgr1)
         | (Inr None, mgr1) \<Rightarrow>
             (Inl (InvalidMemoryError (''Memory '' @ memory_id @ '' not found'') (Some ''id'')), mgr1)
         | (Inr (Some m), mgr1) \<Rightarrow>
             (let previous_version = version m
              in case update_fields env text md m mgr1 of
                   (Inl e, mgr2) \<Rightarrow> (Inl e, mgr2)
                 | (Inr m1, mgr2) \<Rightarrow>
                     (case snapshot_version env text md m1 mgr2 of
                        (Inl e, mgr3) \<Rightarrow> (Inl e, write_through (memory_id, tenant) m1 mgr3)
                      | (Inr m2, mgr3) \<Rightarrow>
                          persist_update env tenant previous_version m2
                            (write_through (memory_id, tenant) m2 mgr3))))"

subsection \<open>search\<close>

definition manager_search ::
  "Env \<Rightarrow> MemoryManager \<Rightarrow> string \<Rightarrow> string option \<Rightarrow> int \<Rightarrow> Filters option
     \<Rightarrow> (error + SearchResult list) \<times> MemoryManager" where
  "manager_search env mgr q tenant limit filters =
     (let tenant = resolve_tenant mgr tenant
      in if q = [] \<or> strip q = []
         then (Inl (InvalidQueryError ''Query cannot be empty'' q), mgr)
         else case generate_embedding_with_retry env q mgr of
                (Inl e, mgr1) \<Rightarrow> (Inl e, record_metric (OperationMetric ''search'' tenant ''error'') mgr1)
              | (Inr query_embedding, mgr1) \<Rightarrow>
                  (case storage_search (storage mgr1) query_embedding tenant limit filters of
                     Inl e \<Rightarrow> (Inl e, record_metric (OperationMetric ''search'' tenant ''error'') mgr1)
                   | Inr results \<Rightarrow>
                       (let mgr2 = record_metric (SearchMetric tenant)
                                     (record_metric (OperationMetric ''search'' tenant ''success'') mgr1);
                            (eid, mgr3) = draw_uuid env mgr2;
                            (ts, mgr4) = read_clock env mgr3
                        in (Inr results,
                            publish (MemorySearchedEvent eid ts q (int (length results)) tenant) mgr4))))"

section \<open>Sequences of calls\<close>

text \<open>The backends that \<open>save\<close>, \<open>delete\<close> and \<open>close\<close> produce from a new one.\<close>

inductive reachable :: "InMemoryBackend \<Rightarrow> bool" where
  reachable_init: "reachable backend_init"
| reachable_save: "reachable b \<Longrightarrow> storage_save b m = Inr b' \<Longrightarrow> reachable b'"
| reachable_delete: "reachable b \<Longrightarrow> storage_delete b memory_id tenant = Inr b' \<Longrightarrow> reachable b'"
| reachable_close: "reachable b \<Longrightarrow> storage_close b = Inr b' \<Longrightarrow> reachable b'"

text \<open>Every stored memory sits under its own id and tenant.\<close>

definition keys_match :: "InMemoryBackend \<Rightarrow> bool" where
  "keys_match b = (\<forall>((memory_id, tenant), m) \<in> set (memories b).
                     mem_id m = memory_id \<and> tenant_id m = tenant)"

text \<open>Successive calls of \<open>update\<close> on one id, each with its own content and metadata
  arguments; the first failure ends the sequence.\<close>

fun manager_updates ::
  "Env \<Rightarrow> MemoryManager \<Rightarrow> UUID \<Rightarrow> string option \<Rightarrow> (string option \<times> MemoryMetadata option) list
     \<Rightarrow> error + MemoryManager" where
  "manager_updates env mgr memory_id tenant [] = Inr mgr"
| "manager_updates env mgr memory_id tenant ((text, md) # rest) =
     (case manager_update env mgr memory_id text md tenant of
        (Inl e, mgr1) \<Rightarrow> Inl e
      | (Inr m, mgr1) \<Rightarrow> manager_updates env mgr1 memory_id tenant rest)"

section \<open>Concrete inputs\<close>

definition example_memory :: "UUID \<Rightarrow> string \<Rightarrow> real list option \<Rightarrow> Memory" where
  "example_memory i t e =
     \<lparr>mem_id = i, content = ''note'', metadata = default_metadata, embedding = e,
      tenant_id = t, created_at = 0, updated_at = 5, expires_at = None,
      relationships = [], versions = [], version = 1\<rparr>"

text \<open>Two memories of tenant A and one of tenant B that has the id of the first.\<close>

definition example_backend :: InMemoryBackend where
  "example_backend =
     \<lparr>memories = [((''m1'', ''A''), example_memory ''m1'' ''A'' (Some [1, 0])),
                  ((''m2'', ''A''), example_memory ''m2'' ''A'' (Some [0, 1])),
                  ((''m1'', ''B''), example_memory ''m1'' ''B'' (Some [1, 0]))],
      embeddings = [((''m1'', ''A''), [1, 0]), ((''m2'', ''A''), [0, 1]), ((''m1'', ''B''), [1, 0])]\<rparr>"

definition example_env :: Env where
  "example_env = \<lparr>embed = (\<lambda>n text. Inr [1, 0]), utcnow = (\<lambda>n. 10 + int n),
                   uuid4 = (\<lambda>n. replicate (Suc n) CHR ''u'')\<rparr>"

definition example_manager :: "bool \<Rightarrow> MemoryManager" where
  "example_manager versioning =
     \<lparr>storage = example_backend,
      settings = \<lparr>settings_tenant_id = ''A'', default_ttl_days = None,
                  enable_versioning = versioning\<rparr>,
      published = [], metrics = Some [], embed_calls = 0, clock_reads = 0, uuid_draws = 0\<rparr>"

section \<open>Properties of the backend\<close>

subsection \<open>What search, list and count can return\<close>

lemma set_py_slice_to: "r \<in> set (py_slice_to xs n) \<Longrightarrow> r \<in> set xs"
  by (auto simp: py_slice_to_def dest: in_set_takeD)

lemma set_sort_by_score_desc: "set (sort_by_score_desc rs) = set rs"
  by (simp add: sort_by_score_desc_def)

lemma length_sort_by_score_desc: "length (sort_by_score_desc rs) = length rs"
  by (simp add: sort_by_score_desc_def)

lemma set_apply_filters: "set (apply_filters rs f) \<subseteq> set rs"
  by (induction rs) auto

lemma set_apply_filters_to_memories: "set (apply_filters_to_memories ms f) \<subseteq> set ms"
  by (induction ms) auto

lemma scored_candidates_sound:
  "r \<in> set (scored_candidates q t al) \<Longrightarrow>
     \<exists>mid e. ((mid, t), memory r) \<in> set al \<and> embedding (memory r) = Some e \<and> e \<noteq> []
        \<and> score r = cosine_similarity q e"
proof (induction q t al rule: scored_candidates.induct)
  case (1 q t)
  then show ?case by simp
next
  case (2 q t mid t' m rest)
  then show ?case
    by (cases "embedding m") (auto split: if_splits)
qed

lemma ranked_results_sound:
  assumes "r \<in> set (ranked_results b q t f)"
  shows "\<exists>mid e. ((mid, t), memory r) \<in> set (memories b) \<and> embedding (memory r) = Some e \<and> e \<noteq> []
        \<and> score r = cosine_similarity q e"
proof -
  from assms have "r \<in> set (scored_candidates q t (memories b))"
    using set_apply_filters
    by (auto simp: ranked_results_def set_sort_by_score_desc Let_def split: option.splits)
  then show ?thesis by (rule scored_candidates_sound)
qed

lemma length_py_slice_to_nonneg: "0 \<le> n \<Longrightarrow> length (py_slice_to xs n) \<le> nat n"
  by (auto simp: py_slice_to_def slice_bound_def)

lemma py_slice_to_neg: "n < 0 \<Longrightarrow> py_slice_to xs n = take (length xs - nat (- n)) xs"
  by (auto simp: py_slice_to_def slice_bound_def nat_diff_distrib' intro: arg_cong2[where f=take])


lemma keys_match_init: "keys_match backend_init"
  by (simp add: keys_match_def backend_init_def)

lemma set_update_subset: "set (AList.update k v al) \<subseteq> insert (k, v) (set al)"
  by (induction al) auto

lemma keys_match_save:
  assumes "keys_match b" and "storage_save b m = Inr b'"
  shows "keys_match b'"
proof -
  have "set (memories b') \<subseteq> insert ((mem_id m, tenant_id m), m) (set (memories b))"
    using assms(2) set_update_subset[of "(mem_id m, tenant_id m)" m "memories b"]
    by (auto simp: storage_save_def Let_def split: if_splits)
  with assms(1) show ?thesis
    by (fastforce simp: keys_match_def)
qed

lemma keys_match_delete:
  assumes "keys_match b" and "storage_delete b i t = Inr b'"
  shows "keys_match b'"
proof -
  have "set (memories b') \<subseteq> set (memories b)"
    using assms(2) by (auto simp: storage_delete_def Let_def AList.delete_eq)
  with assms(1) show ?thesis
    by (fastforce simp: keys_match_def)
qed

lemma keys_match_close: "storage_close b = Inr b' \<Longrightarrow> keys_match b'"
  by (auto simp: storage_close_def keys_match_def)

lemma reachable_keys_match: "reachable b \<Longrightarrow> keys_match b"
  by (induction rule: reachable.induct)
     (auto intro: keys_match_init keys_match_save keys_match_delete keys_match_close)

lemma set_py_slice: "x \<in> set (py_slice xs i j) \<Longrightarrow> x \<in> set xs"
  by (auto simp: py_slice_def Let_def dest: in_set_dropD in_set_takeD)


lemma tenant_memories_sound:
  "m \<in> set (tenant_memories b t f) \<Longrightarrow> \<exists>mid. ((mid, t), m) \<in> set (memories b)"
  using set_apply_filters_to_memories
  by (fastforce simp: tenant_memories_def Let_def split: option.splits)

lemma filter_update_other:
  "\<forall>v'. \<not> P (k, v') \<Longrightarrow> filter P (AList.update k v al) = filter P al"
  by (induction al) auto

lemma tenant_memories_save_other:
  assumes "storage_save b m = Inr b'" and "tenant_id m \<noteq> t"
  shows "tenant_memories b' t f = tenant_memories b t f"
proof -
  have "memories b' = AList.update (mem_id m, tenant_id m) m (memories b)"
    using assms(1) by (auto simp: storage_save_def Let_def split: if_splits)
  moreover have "filter (\<lambda>((mid, t'), m'). t' = t) (AList.update (mem_id m, tenant_id m) m (memories b))
      = filter (\<lambda>((mid, t'), m'). t' = t) (memories b)"
    using assms(2) by (intro filter_update_other) auto
  ultimately show ?thesis
    by (simp add: tenant_memories_def)
qed

lemma scored_candidates_update_other:
  "t' \<noteq> t \<Longrightarrow> scored_candidates q t (AList.update (i, t') m al) = scored_candidates q t al"
  by (induction q t al rule: scored_candidates.induct) auto

lemma ranked_results_save_other:
  assumes "storage_save b m = Inr b'" and "tenant_id m \<noteq> t"
  shows "ranked_results b' q t f = ranked_results b q t f"
proof -
  have "memories b' = AList.update (mem_id m, tenant_id m) m (memories b)"
    using assms(1) by (auto simp: storage_save_def Let_def split: if_splits)
  then show ?thesis
    using assms(2) by (simp add: ranked_results_def scored_candidates_update_other)
qed

lemma storage_get_save_other:
  assumes "storage_save b m = Inr b'" and "tenant_id m \<noteq> t"
  shows "storage_get b' i t = storage_get b i t"
proof -
  have "memories b' = AList.update (mem_id m, tenant_id m) m (memories b)"
    using assms(1) by (auto simp: storage_save_def Let_def split: if_splits)
  then show ?thesis
    using assms(2) by (simp add: storage_get_def update_conv')
qed

subsection \<open>Truncation\<close>

text \<open>
  C4, as the code has it. \<open>search\<close> always returns; for a limit of 0 or more it
  returns at most \<open>limit\<close> results, none for 0; a negative limit is not clamped: the
  slice \<open>results[:limit]\<close> then drops the last \<open>-limit\<close> ranked results and returns
  the rest.
\<close>

theorem search_truncation:
  "\<exists>rs. storage_search b q t limit f = Inr rs \<and>
        (0 \<le> limit \<longrightarrow> int (length rs) \<le> limit) \<and>
        (limit = 0 \<longrightarrow> rs = []) \<and>
        (limit < 0 \<longrightarrow> rs = take (length (ranked_results b q t f) - nat (- limit)) (ranked_results b q t f))"
  using length_py_slice_to_nonneg[of limit "ranked_results b q t f"] py_slice_to_neg[of limit "ranked_results b q t f"]
  by (auto simp: storage_search_def py_slice_to_def slice_bound_def)

theorem search_truncation_witness:
  "(\<exists>rs. storage_search example_backend [1, 0] ''A'' 1 None = Inr rs \<and> int (length rs) \<le> 1)
   \<and> storage_search example_backend [1, 0] ''A'' 0 None = Inr []
   \<and> storage_search example_backend [1, 0] ''A'' (- 1) None =
       Inr (take (length (ranked_results example_backend [1, 0] ''A'' None) - 1)
              (ranked_results example_backend [1, 0] ''A'' None))"
  using search_truncation[of example_backend "[1, 0]" "''A''" 1 None]
    search_truncation[of example_backend "[1, 0]" "''A''" 0 None]
    search_truncation[of example_backend "[1, 0]" "''A''" "- 1" None]
  by auto


text \<open>With limit \<open>-1\<close> and two candidates of tenant A, one result comes back: more than
  \<open>limit\<close>, and not the empty set.\<close>

theorem search_negative_limit_counterexample:
  "map_sum id (map (mem_id \<circ> memory))
     (storage_search example_backend [1, 0] ''A'' (- 1) None) = Inr [''m1'']"
  by (simp add: storage_search_def ranked_results_def example_backend_def example_memory_def
        sort_by_score_desc_def py_slice_to_def slice_bound_def cosine_similarity_def magnitude_def
        dot_product_def)


subsection \<open>Tenant isolation\<close>

text \<open>
  C1. In every backend produced by \<open>save\<close>, \<open>delete\<close> and \<open>close\<close>, a memory whose
  tenant is not B is never the answer of \<open>get\<close> under B (whatever the id asked for),
  never among the memories \<open>list\<close> or \<open>search\<close> return under B, and saving it changes
  nothing that \<open>count\<close>, \<open>get\<close>, \<open>list\<close> or \<open>search\<close> report under B.
\<close>

theorem tenant_isolation:
  assumes "reachable b" and "tenant_id m \<noteq> B"
  shows "storage_get b i B \<noteq> Inr (Some m)
       \<and> (\<forall>ms. storage_list b B limit offset f = Inr ms \<longrightarrow> m \<notin> set ms)
       \<and> (\<forall>rs. storage_search b q B limit f = Inr rs \<longrightarrow> m \<notin> memory ` set rs)
       \<and> (\<forall>b'. storage_save b m = Inr b' \<longrightarrow>
             storage_count b' B f = storage_count b B f
           \<and> storage_get b' i B = storage_get b i B
           \<and> storage_list b' B limit offset f = storage_list b B limit offset f
           \<and> storage_search b' q B limit f = storage_search b q B limit f)"
proof -
  have km: "keys_match b"
    using assms(1) by (rule reachable_keys_match)
  have stored: "tenant_id m' = t" if "((mid, t), m') \<in> set (memories b)" for mid t m'
    using km that by (auto simp: keys_match_def)
  have g: "storage_get b i B \<noteq> Inr (Some m)"
  proof
    assume "storage_get b i B = Inr (Some m)"
    then have "((i, B), m) \<in> set (memories b)"
      by (auto simp: storage_get_def dest: map_of_SomeD)
    with stored assms(2) show False by blast
  qed
  have l: "m \<notin> set ms" if "storage_list b B limit offset f = Inr ms" for ms
  proof
    assume "m \<in> set ms"
    with that have "m \<in> set (tenant_memories b B f)"
      by (auto simp: storage_list_def dest: set_py_slice)
    then obtain mid where "((mid, B), m) \<in> set (memories b)"
      using tenant_memories_sound by blast
    with stored assms(2) show False by blast
  qed
  have s: "m \<notin> memory ` set rs" if "storage_search b q B limit f = Inr rs" for rs
  proof
    assume "m \<in> memory ` set rs"
    then obtain r where r: "r \<in> set rs" "memory r = m" by auto
    with that have "r \<in> set (ranked_results b q B f)"
      by (auto simp: storage_search_def dest: set_py_slice_to)
    then obtain mid where "((mid, B), memory r) \<in> set (memories b)"
      using ranked_results_sound by blast
    with stored assms(2) r show False by blast
  qed
  have n: "storage_count b' B f = storage_count b B f
           \<and> storage_get b' i B = storage_get b i B
           \<and> storage_list b' B limit offset f = storage_list b B limit offset f
           \<and> storage_search b' q B limit f = storage_search b q B limit f"
    if "storage_save b m = Inr b'" for b'
    using that assms(2)
    by (simp add: storage_count_def storage_list_def storage_search_def
        tenant_memories_save_other ranked_results_save_other storage_get_save_other)
  from g l s n show ?thesis by blast
qed


lemma reachable_example_backend: "reachable example_backend"
proof -
  let ?m1 = "example_memory ''m1'' ''A'' (Some [1, 0])"
  let ?m2 = "example_memory ''m2'' ''A'' (Some [0, 1])"
  let ?m3 = "example_memory ''m1'' ''B'' (Some [1, 0])"
  have 1: "storage_save backend_init ?m1 =
             Inr \<lparr>memories = [((''m1'', ''A''), ?m1)], embeddings = [((''m1'', ''A''), [1, 0])]\<rparr>"
    by (simp add: storage_save_def Let_def backend_init_def example_memory_def)
  have 2: "storage_save \<lparr>memories = [((''m1'', ''A''), ?m1)], embeddings = [((''m1'', ''A''), [1, 0])]\<rparr> ?m2 =
             Inr \<lparr>memories = [((''m1'', ''A''), ?m1), ((''m2'', ''A''), ?m2)],
                  embeddings = [((''m1'', ''A''), [1, 0]), ((''m2'', ''A''), [0, 1])]\<rparr>"
    by (simp add: storage_save_def Let_def example_memory_def)
  have 3: "storage_save \<lparr>memories = [((''m1'', ''A''), ?m1), ((''m2'', ''A''), ?m2)],
                  embeddings = [((''m1'', ''A''), [1, 0]), ((''m2'', ''A''), [0, 1])]\<rparr> ?m3 =
             Inr example_backend"
    by (simp add: storage_save_def Let_def example_memory_def example_backend_def)
  show ?thesis
    using reachable_save[OF reachable_save[OF reachable_save[OF reachable_init 1] 2] 3] .
qed


theorem tenant_isolation_witness:
  "reachable example_backend \<and> tenant_id (example_memory ''m1'' ''A'' (Some [1, 0])) \<noteq> ''B''
   \<and> storage_get example_backend ''m1'' ''B'' \<noteq> Inr (Some (example_memory ''m1'' ''A'' (Some [1, 0])))
   \<and> storage_get example_backend ''m1'' ''A'' = Inr (Some (example_memory ''m1'' ''A'' (Some [1, 0])))
   \<and> storage_count example_backend ''B'' None = Inr 1"
proof -
  have h: "tenant_id (example_memory ''m1'' ''A'' (Some [1, 0])) \<noteq> ''B''"
    by (simp add: example_memory_def)
  have "storage_get example_backend ''m1'' ''A'' = Inr (Some (example_memory ''m1'' ''A'' (Some [1, 0])))"
    by (simp add: storage_get_def example_backend_def)
  moreover have "storage_count example_backend ''B'' None = Inr 1"
    by (simp add: storage_count_def tenant_memories_def example_backend_def)
  ultimately show ?thesis
    using tenant_isolation[OF reachable_example_backend h, of "''m1''"] reachable_example_backend h
    by simp
qed


subsection \<open>close\<close>

text \<open>
  C8, as the code has it. \<open>close\<close> empties both dictionaries and records nothing else:
  the backend is then the one \<open>__init__\<close> builds, and every later operation succeeds on
  it. \<open>get\<close> returns None, \<open>search\<close> and \<open>list\<close> return the empty list, \<open>count\<close>
  returns 0, \<open>delete\<close> changes nothing, and \<open>save\<close> stores the memory.
\<close>

theorem close_keeps_backend_usable:
  "storage_close b = Inr backend_init
   \<and> storage_get backend_init i t = Inr None
   \<and> storage_search backend_init q t limit f = Inr []
   \<and> storage_list backend_init t limit offset f = Inr []
   \<and> storage_count backend_init t f = Inr 0
   \<and> storage_delete backend_init i t = Inr backend_init
   \<and> (\<exists>b'. storage_save backend_init m = Inr b'
            \<and> storage_get b' (mem_id m) (tenant_id m) = Inr (Some m))"
  by (cases f)
     (auto simp: storage_close_def backend_init_def storage_get_def storage_search_def
        ranked_results_def sort_by_score_desc_def py_slice_to_def storage_list_def py_slice_def
        tenant_memories_def storage_count_def storage_delete_def storage_save_def Let_def)


text \<open>After \<open>close\<close>, \<open>get\<close> of an id that was stored returns None and \<open>count\<close> returns 0:
  neither fails.\<close>

theorem close_then_get_counterexample:
  "storage_close example_backend = Inr backend_init
   \<and> storage_get backend_init ''m1'' ''A'' = Inr None
   \<and> storage_count backend_init ''A'' None = Inr 0"
  by (simp add: storage_close_def example_backend_def backend_init_def storage_get_def
        storage_count_def tenant_memories_def)


section \<open>Properties of the event bus\<close>

lemma unsubscribe_unknown_type:
  "map_of (handlers bus) etype = None \<Longrightarrow> unsubscribe bus etype handler = Inr bus"
  by (simp add: unsubscribe_def)

lemma unsubscribe_known_type_absent_handler:
  "map_of (handlers bus) etype = Some hs \<Longrightarrow> handler \<notin> set hs \<Longrightarrow>
     unsubscribe bus etype handler = Inl ValueError"
  by (simp add: unsubscribe_def list_remove_def)


text \<open>
  C9. \<open>unsubscribe\<close> guards against an event type without registry entry only. With
  handler 1 subscribed to memory.created, unsubscribing handler 2 from that type raises
  ValueError.
\<close>

theorem unsubscribe_unregistered_handler_raises:
  "unsubscribe (subscribe bus_init ''memory.created'' (1::nat)) ''memory.created'' 2 = Inl ValueError"
  by (simp add: unsubscribe_def subscribe_def bus_init_def list_remove_def)


section \<open>Properties of Memory\<close>

text \<open>
  C7. For a memory whose version counter satisfies the field constraint \<open>ge=1\<close>,
  \<open>create_version\<close> appends exactly one version record, with the memory's current
  content, its version number and, as timestamp, its previous \<open>updated_at\<close>; it adds 1
  to the version counter and sets \<open>updated_at\<close> to the current time. The other eight
  fields keep their values.
\<close>

theorem create_version_effect:
  assumes "1 \<le> version m"
  shows "\<exists>m' v. create_version changed_fields now m = Inr m'
           \<and> versions m' = versions m @ [v]
           \<and> v_content v = content m \<and> v_created_at v = updated_at m \<and> v_version v = version m
           \<and> v_changed_fields v = (case changed_fields of None \<Rightarrow> [''content''] | Some c \<Rightarrow> c)
           \<and> version m' = version m + 1 \<and> updated_at m' = now
           \<and> mem_id m' = mem_id m \<and> content m' = content m \<and> metadata m' = metadata m
           \<and> embedding m' = embedding m \<and> tenant_id m' = tenant_id m
           \<and> created_at m' = created_at m \<and> expires_at m' = expires_at m
           \<and> relationships m' = relationships m"
  using assms by (simp add: create_version_def)


theorem create_version_effect_witness:
  "1 \<le> version (example_memory ''m1'' ''A'' None)
   \<and> (\<exists>m'. create_version (Some [''metadata'']) 9 (example_memory ''m1'' ''A'' None) = Inr m'
         \<and> version m' = 2 \<and> updated_at m' = 9
         \<and> versions m' = [\<lparr>v_version = 1, v_created_at = 5, v_content = ''note'',
                            v_changed_fields = [''metadata'']\<rparr>])"
proof -
  have h: "1 \<le> version (example_memory ''m1'' ''A'' None)"
    by (simp add: example_memory_def)
  show ?thesis
    using h create_version_effect[OF h, of "Some [''metadata'']" 9]
    by (auto simp: example_memory_def)
qed

section \<open>Properties of the manager\<close>

subsection \<open>Rejected content\<close>

lemma strip_all_space:
  assumes "\<forall>c\<in>set s. isspace c"
  shows "strip s = []"
proof -
  have d: "dropWhile isspace s = []"
    using assms by simp
  show ?thesis
    by (simp only: strip_def d rev.simps dropWhile.simps)
qed

lemma strip_empty_iff: "strip s = [] \<longleftrightarrow> (\<forall>c\<in>set s. isspace c)"
proof
  assume "strip s = []"
  then have "dropWhile isspace (rev (dropWhile isspace s)) = []"
    by (simp add: strip_def)
  then have all: "\<forall>c\<in>set (dropWhile isspace s). isspace c"
    by simp
  have "dropWhile isspace s = []"
  proof (cases "dropWhile isspace s")
    case Nil
    then show ?thesis .
  next
    case (Cons a as)
    then have "\<not> isspace a" using hd_dropWhile[of isspace s] by simp
    moreover have "isspace a" using all Cons by simp
    ultimately show ?thesis by simp
  qed
  then show "\<forall>c\<in>set s. isspace c" by simp
qed (rule strip_all_space)

text \<open>
  C5. \<open>save\<close> with content that is empty or made of whitespace only fails with
  InvalidMemoryError, a validation error, and returns the manager's state as it was:
  the backend is not written, no event is published, no collaborator is called.
\<close>

theorem save_rejects_blank_content:
  assumes "\<forall>c\<in>set text. isspace c"
  shows "manager_save env mgr text md tenant generate_embedding ttl_days =
           (Inl (InvalidMemoryError ''Memory content cannot be empty'' (Some ''content'')), mgr)
         \<and> is_ValidationError (InvalidMemoryError ''Memory content cannot be empty'' (Some ''content''))"
  using assms by (simp add: manager_save_def strip_all_space)

theorem save_rejects_blank_content_witness:
  "manager_save example_env (example_manager True) ''   '' None None True None =
           (Inl (InvalidMemoryError ''Memory content cannot be empty'' (Some ''content'')),
            example_manager True)
   \<and> manager_save example_env (example_manager True) '''' None None True None =
           (Inl (InvalidMemoryError ''Memory content cannot be empty'' (Some ''content'')),
            example_manager True)"
proof -
  have h1: "\<forall>c\<in>set ''   ''. isspace c" by (simp add: isspace_def)
  have h2: "\<forall>c\<in>set ''''. isspace c" by simp
  show ?thesis
    using save_rejects_blank_content[OF h1, of example_env "example_manager True" None None True None]
      save_rejects_blank_content[OF h2, of example_env "example_manager True" None None True None]
    by simp
qed

lemma resolve_tenant_idem: "resolve_tenant mgr (Some (resolve_tenant mgr t)) = resolve_tenant mgr t"
  by (simp add: resolve_tenant_def split: option.splits)

lemma storage_record_metric [simp]: "storage (record_metric x mgr) = storage mgr"
  "published (record_metric x mgr) = published mgr"
  "embed_calls (record_metric x mgr) = embed_calls mgr"
  "settings (record_metric x mgr) = settings mgr"
  "clock_reads (record_metric x mgr) = clock_reads mgr"
  "uuid_draws (record_metric x mgr) = uuid_draws mgr"
  by (simp_all add: record_metric_def)

text \<open>
  C6, as the code has it. \<open>update\<close> of an id that the backend does not hold under the
  resolved tenant fails with InvalidMemoryError for the field id. That is the
  validation-error class, the one \<open>save\<close> raises for empty content, and not a
  not-found class. The backend and the published events are unchanged and the embedding
  service is not called; only the metric of the failed \<open>get\<close> is recorded.
\<close>

theorem update_missing_id_raises_invalid_memory:
  assumes "storage_get (storage mgr) memory_id (resolve_tenant mgr tenant) = Inr None"
  shows "\<exists>mgr'. manager_update env mgr memory_id text md tenant =
                   (Inl (InvalidMemoryError (''Memory '' @ memory_id @ '' not found'') (Some ''id'')), mgr')
           \<and> storage mgr' = storage mgr \<and> published mgr' = published mgr
           \<and> embed_calls mgr' = embed_calls mgr
           \<and> is_ValidationError (InvalidMemoryError (''Memory '' @ memory_id @ '' not found'') (Some ''id''))
           \<and> \<not> is_NotFoundError (InvalidMemoryError (''Memory '' @ memory_id @ '' not found'') (Some ''id''))"
  using assms by (simp add: manager_update_def manager_get_def resolve_tenant_idem Let_def)

text \<open>For the unknown id m9 the error is a validation error, of the class that \<open>save\<close>
  raises for empty content.\<close>

theorem update_missing_id_counterexample:
  "fst (manager_update example_env (example_manager True) ''m9'' None None None) =
     Inl (InvalidMemoryError ''Memory m9 not found'' (Some ''id''))
   \<and> fst (manager_save example_env (example_manager True) '''' None None True None) =
     Inl (InvalidMemoryError ''Memory content cannot be empty'' (Some ''content''))
   \<and> is_ValidationError (InvalidMemoryError ''Memory m9 not found'' (Some ''id''))
   \<and> \<not> is_NotFoundError (InvalidMemoryError ''Memory m9 not found'' (Some ''id''))"
  by (simp add: manager_update_def manager_get_def resolve_tenant_def Let_def example_manager_def
      example_backend_def storage_get_def manager_save_def)

theorem update_missing_id_raises_invalid_memory_witness:
  "storage_get (storage (example_manager True)) ''m2'' (resolve_tenant (example_manager True) (Some ''B'')) = Inr None
   \<and> (\<exists>mgr'. manager_update example_env (example_manager True) ''m2'' (Some ''text'') None (Some ''B'') =
                   (Inl (InvalidMemoryError ''Memory m2 not found'' (Some ''id'')), mgr')
           \<and> storage mgr' = example_backend)"
proof -
  have h: "storage_get (storage (example_manager True)) ''m2'' (resolve_tenant (example_manager True) (Some ''B'')) = Inr None"
    by (simp add: storage_get_def example_manager_def example_backend_def resolve_tenant_def)
  have "storage (example_manager True) = example_backend"
    by (simp add: example_manager_def)
  then show ?thesis
    using h update_missing_id_raises_invalid_memory[OF h, of example_env "Some ''text''" None]
    by auto
qed

subsection \<open>The stages of update\<close>

lemma embed_once_frame:
  "embed_once env text mgr = (r, mgr') \<Longrightarrow>
     storage mgr' = storage mgr \<and> settings mgr' = settings mgr \<and> published mgr' = published mgr
     \<and> clock_reads mgr' = clock_reads mgr \<and> uuid_draws mgr' = uuid_draws mgr"
  by (auto simp: embed_once_def Let_def record_metric_def split: sum.splits)

lemma embed_attempts_frame:
  "embed_attempts k env text mgr = (r, mgr') \<Longrightarrow>
     storage mgr' = storage mgr \<and> settings mgr' = settings mgr \<and> published mgr' = published mgr
     \<and> clock_reads mgr' = clock_reads mgr \<and> uuid_draws mgr' = uuid_draws mgr"
proof (induction k arbitrary: mgr)
  case 0
  then show ?case using embed_once_frame by simp
next
  case (Suc k)
  obtain r1 mgr1 where e: "embed_once env text mgr = (r1, mgr1)"
    by (cases "embed_once env text mgr")
  show ?case
  proof (cases r1)
    case (Inl err)
    with e Suc.prems have "embed_attempts k env text mgr1 = (r, mgr')" by simp
    from Suc.IH[OF this] embed_once_frame[OF e] show ?thesis by simp
  next
    case (Inr v)
    with e Suc.prems have "mgr' = mgr1" by simp
    with embed_once_frame[OF e] show ?thesis by simp
  qed
qed

lemma generate_embedding_frame:
  "generate_embedding_with_retry env text mgr = (r, mgr') \<Longrightarrow>
     storage mgr' = storage mgr \<and> settings mgr' = settings mgr \<and> published mgr' = published mgr
     \<and> clock_reads mgr' = clock_reads mgr \<and> uuid_draws mgr' = uuid_draws mgr"
  unfolding generate_embedding_with_retry_def by (rule embed_attempts_frame)

lemma save_attempts_eq: "save_attempts k b m = storage_save b m"
  by (cases k) (simp_all add: storage_save_def Let_def)

lemma save_with_retry_eq: "save_with_retry b m = storage_save b m"
  by (simp add: save_with_retry_def save_attempts_eq)

lemma read_clock_frame [simp]:
  "storage (snd (read_clock env mgr)) = storage mgr"
  "settings (snd (read_clock env mgr)) = settings mgr"
  "published (snd (read_clock env mgr)) = published mgr"
  "fst (read_clock env mgr) = utcnow env (clock_reads mgr)"
  by (simp_all add: read_clock_def)

lemma draw_uuid_frame [simp]:
  "storage (snd (draw_uuid env mgr)) = storage mgr"
  "settings (snd (draw_uuid env mgr)) = settings mgr"
  "published (snd (draw_uuid env mgr)) = published mgr"
  by (simp_all add: draw_uuid_def)

lemma publish_frame [simp]:
  "storage (publish ev mgr) = storage mgr"
  "settings (publish ev mgr) = settings mgr"
  "published (publish ev mgr) = published mgr @ [ev]"
  by (simp_all add: publish_def)

lemma write_through_frame [simp]:
  "storage (write_through key m mgr) = (storage mgr)\<lparr>memories := AList.update key m (memories (storage mgr))\<rparr>"
  "settings (write_through key m mgr) = settings mgr"
  "published (write_through key m mgr) = published mgr"
  by (simp_all add: write_through_def)

lemma resolve_tenant_settings:
  "settings mgr' = settings mgr \<Longrightarrow> resolve_tenant mgr' t = resolve_tenant mgr t"
  by (simp add: resolve_tenant_def split: option.splits)

lemma storage_get_after_save:
  "storage_save (b\<lparr>memories := AList.update key m (memories b)\<rparr>) m = Inr b' \<Longrightarrow>
     storage_get b' (fst key) (snd key) = Inr (Some m) \<and>
     storage_get b' (mem_id m) (tenant_id m) = Inr (Some m)"
  by (auto simp: storage_save_def storage_get_def Let_def update_conv' split: if_splits)

lemma update_fields_frame:
  assumes "update_fields env text md m mgr = (Inr m1, mgr1)"
  shows "version m1 = version m \<and> versions m1 = versions m \<and> updated_at m1 = updated_at m
         \<and> mem_id m1 = mem_id m \<and> tenant_id m1 = tenant_id m
         \<and> storage mgr1 = storage mgr \<and> settings mgr1 = settings mgr
         \<and> published mgr1 = published mgr"
proof (cases "truthy_text text")
  case False
  with assms show ?thesis
    by (auto simp: update_fields_def split: option.splits)
next
  case True
  obtain r mgr2 where e: "generate_embedding_with_retry env (the text) mgr = (r, mgr2)"
    by (cases "generate_embedding_with_retry env (the text) mgr")
  from assms True e have "mgr1 = mgr2"
    by (auto simp: update_fields_def split: if_splits sum.splits)
  with generate_embedding_frame[OF e] assms True e show ?thesis
    by (auto simp: update_fields_def split: if_splits sum.splits option.splits)
qed

lemma snapshot_version_enabled:
  assumes "snapshot_version env text md m mgr = (Inr m2, mgr1)" and "enable_versioning (settings mgr)"
  shows "m2 = m\<lparr>versions := versions m @
                   [\<lparr>v_version = version m, v_created_at = updated_at m, v_content = content m,
                     v_changed_fields = changed_fields_of text md\<rparr>],
                 version := version m + 1, updated_at := utcnow env (clock_reads mgr)\<rparr>
         \<and> 1 \<le> version m
         \<and> storage mgr1 = storage mgr \<and> settings mgr1 = settings mgr
         \<and> published mgr1 = published mgr"
  using assms
  by (auto simp: snapshot_version_def create_version_def read_clock_def split: if_splits)

lemma persist_update_result:
  assumes "persist_update env tenant pv m mgr = (Inr m', mgr')"
  shows "m' = m \<and> storage_save (storage mgr) m = Inr (storage mgr')
         \<and> settings mgr' = settings mgr
         \<and> (\<exists>eid ts. published mgr' = published mgr @ [MemoryUpdatedEvent eid ts m pv])"
  using assms
  by (auto simp: persist_update_def save_with_retry_eq Let_def split_beta split: sum.splits)

lemma manager_update_found:
  assumes found: "storage_get (storage mgr) memory_id (resolve_tenant mgr tenant) = Inr (Some m)"
  shows "manager_update env mgr memory_id text md tenant =
     (case update_fields env text md m
             (record_metric (OperationMetric ''get'' (resolve_tenant mgr tenant) ''success'') mgr) of
        (Inl e, mgr2) \<Rightarrow> (Inl e, mgr2)
      | (Inr m1, mgr2) \<Rightarrow>
          (case snapshot_version env text md m1 mgr2 of
             (Inl e, mgr3) \<Rightarrow> (Inl e, write_through (memory_id, resolve_tenant mgr tenant) m1 mgr3)
           | (Inr m2, mgr3) \<Rightarrow>
               persist_update env (resolve_tenant mgr tenant) (version m) m2
                 (write_through (memory_id, resolve_tenant mgr tenant) m2 mgr3)))"
proof -
  have g: "manager_get mgr memory_id (Some (resolve_tenant mgr tenant)) =
             (Inr (Some m), record_metric (OperationMetric ''get'' (resolve_tenant mgr tenant) ''success'') mgr)"
    using found by (simp add: manager_get_def resolve_tenant_idem)
  show ?thesis
    unfolding manager_update_def Let_def g by simp
qed

lemma manager_update_stages:
  assumes found: "storage_get (storage mgr) memory_id (resolve_tenant mgr tenant) = Inr (Some m)"
    and res: "manager_update env mgr memory_id text md tenant = (Inr m', mgr')"
  shows "\<exists>m1 mgr2 m2 mgr3.
           update_fields env text md m
             (record_metric (OperationMetric ''get'' (resolve_tenant mgr tenant) ''success'') mgr) = (Inr m1, mgr2)
         \<and> snapshot_version env text md m1 mgr2 = (Inr m2, mgr3)
         \<and> persist_update env (resolve_tenant mgr tenant) (version m) m2
              (write_through (memory_id, resolve_tenant mgr tenant) m2 mgr3) = (Inr m', mgr')"
proof -
  let ?t = "resolve_tenant mgr tenant"
  let ?mgr1 = "record_metric (OperationMetric ''get'' ?t ''success'') mgr"
  note eq = res[unfolded manager_update_found[OF found]]
  obtain r1 mgr2 where u: "update_fields env text md m ?mgr1 = (r1, mgr2)"
    by (cases "update_fields env text md m ?mgr1")
  obtain r2 mgr3 where sv: "snapshot_version env text md (projr r1) mgr2 = (r2, mgr3)"
    by (cases "snapshot_version env text md (projr r1) mgr2")
  show ?thesis
  proof (cases r1)
    case (Inl e)
    with eq u show ?thesis by simp
  next
    case r1: (Inr m1)
    show ?thesis
    proof (cases r2)
      case (Inl e)
      with eq u r1 sv show ?thesis by simp
    next
      case r2: (Inr m2)
      from eq u r1 sv r2
      have "persist_update env ?t (version m) m2 (write_through (memory_id, ?t) m2 mgr3) = (Inr m', mgr')"
        by simp
      with u r1 sv r2 show ?thesis by simp
    qed
  qed
qed

lemma manager_update_versioned:
  assumes found: "storage_get (storage mgr) memory_id (resolve_tenant mgr tenant) = Inr (Some m)"
    and ver: "enable_versioning (settings mgr)"
    and res: "manager_update env mgr memory_id text md tenant = (Inr m', mgr')"
  shows "version m' = version m + 1 \<and> length (versions m') = Suc (length (versions m))
         \<and> 1 \<le> version m
         \<and> storage_get (storage mgr') memory_id (resolve_tenant mgr' tenant) = Inr (Some m')
         \<and> settings mgr' = settings mgr"
proof -
  let ?t = "resolve_tenant mgr tenant"
  let ?mgr1 = "record_metric (OperationMetric ''get'' ?t ''success'') mgr"
  from manager_update_stages[OF found res] obtain m1 mgr2 m2 mgr3 where
    u: "update_fields env text md m ?mgr1 = (Inr m1, mgr2)"
    and sv: "snapshot_version env text md m1 mgr2 = (Inr m2, mgr3)"
    and p: "persist_update env ?t (version m) m2 (write_through (memory_id, ?t) m2 mgr3) = (Inr m', mgr')"
    by blast
  note uf = update_fields_frame[OF u]
  have s2: "settings mgr2 = settings mgr"
    using uf by simp
  with ver have ver2: "enable_versioning (settings mgr2)" by simp
  note sf = snapshot_version_enabled[OF sv ver2]
  note pf = persist_update_result[OF p]
  have m': "m' = m2" using pf by simp
  have "storage_save ((storage mgr3)\<lparr>memories := AList.update (memory_id, ?t) m2 (memories (storage mgr3))\<rparr>) m2
                  = Inr (storage mgr')"
    using pf by simp
  from storage_get_after_save[OF this]
  have got: "storage_get (storage mgr') memory_id ?t = Inr (Some m2)"
    by simp
  have st: "settings mgr' = settings mgr"
    using pf sf s2 by simp
  have v: "version m2 = version m + 1" "length (versions m2) = Suc (length (versions m))" "1 \<le> version m"
    using sf uf by simp_all
  show ?thesis
    using m' got st v resolve_tenant_settings[OF st, of tenant] by simp
qed

lemma persist_update_succeeds:
  "\<exists>mgr'. persist_update env tenant pv m mgr = (Inr m, mgr')"
  by (simp add: persist_update_def save_with_retry_eq storage_save_def Let_def split_beta)

lemma update_fields_succeeds:
  assumes "\<not> (truthy_text text \<and> strip (the text) = [])"
  shows "\<exists>m1 mgr1. update_fields env text md m mgr = (Inr m1, mgr1)"
proof -
  obtain r mgr2 where e: "generate_embedding_with_retry env (the text) mgr = (r, mgr2)"
    by (cases "generate_embedding_with_retry env (the text) mgr")
  show ?thesis
    using assms e by (cases r) (auto simp: update_fields_def)
qed

lemma snapshot_version_succeeds:
  assumes "enable_versioning (settings mgr) \<longrightarrow> 1 \<le> version m"
  shows "\<exists>m2 mgr1. snapshot_version env text md m mgr = (Inr m2, mgr1)"
  using assms by (auto simp: snapshot_version_def create_version_def read_clock_def)

lemma manager_update_succeeds:
  assumes found: "storage_get (storage mgr) memory_id (resolve_tenant mgr tenant) = Inr (Some m)"
    and text_ok: "\<not> (truthy_text text \<and> strip (the text) = [])"
    and ver_ok: "enable_versioning (settings mgr) \<longrightarrow> 1 \<le> version m"
  shows "\<exists>m' mgr'. manager_update env mgr memory_id text md tenant = (Inr m', mgr')"
proof -
  let ?t = "resolve_tenant mgr tenant"
  let ?mgr1 = "record_metric (OperationMetric ''get'' ?t ''success'') mgr"
  from update_fields_succeeds[OF text_ok] obtain m1 mgr2 where
    u: "update_fields env text md m ?mgr1 = (Inr m1, mgr2)" by blast
  note uf = update_fields_frame[OF u]
  have "enable_versioning (settings mgr2) \<longrightarrow> 1 \<le> version m1"
    using uf ver_ok by simp
  from snapshot_version_succeeds[OF this] obtain m2 mgr3 where
    sv: "snapshot_version env text md m1 mgr2 = (Inr m2, mgr3)" by blast
  from persist_update_succeeds obtain mgr' where
    "persist_update env ?t (version m) m2 (write_through (memory_id, ?t) m2 mgr3) = (Inr m2, mgr')"
    by blast
  with u sv show ?thesis
    by (simp add: manager_update_found[OF found])
qed

subsection \<open>The stages of save\<close>

lemma snapshot_version_disabled:
  "\<not> enable_versioning (settings mgr) \<Longrightarrow> snapshot_version env tx md m mgr = (Inr m, mgr)"
  by (simp add: snapshot_version_def)

lemma manager_update_unversioned:
  assumes found: "storage_get (storage mgr) memory_id (resolve_tenant mgr tenant) = Inr (Some m)"
    and nover: "\<not> enable_versioning (settings mgr)"
    and res: "manager_update env mgr memory_id tx md tenant = (Inr m', mgr')"
  shows "version m' = version m \<and> versions m' = versions m
         \<and> storage_get (storage mgr') memory_id (resolve_tenant mgr' tenant) = Inr (Some m')
         \<and> settings mgr' = settings mgr"
proof -
  let ?t = "resolve_tenant mgr tenant"
  let ?mgr1 = "record_metric (OperationMetric ''get'' ?t ''success'') mgr"
  from manager_update_stages[OF found res] obtain m1 mgr2 m2 mgr3 where
    u: "update_fields env tx md m ?mgr1 = (Inr m1, mgr2)"
    and sv: "snapshot_version env tx md m1 mgr2 = (Inr m2, mgr3)"
    and p: "persist_update env ?t (version m) m2 (write_through (memory_id, ?t) m2 mgr3) = (Inr m', mgr')"
    by blast
  note uf = update_fields_frame[OF u]
  have s2: "settings mgr2 = settings mgr"
    using uf by simp
  with nover have "\<not> enable_versioning (settings mgr2)" by simp
  from snapshot_version_disabled[OF this, of env tx md m1] sv
  have same: "m2 = m1" "mgr3 = mgr2" by simp_all
  note pf = persist_update_result[OF p]
  have m': "m' = m2" using pf by simp
  have "storage_save ((storage mgr3)\<lparr>memories := AList.update (memory_id, ?t) m2 (memories (storage mgr3))\<rparr>) m2
                  = Inr (storage mgr')"
    using pf by simp
  from storage_get_after_save[OF this]
  have got: "storage_get (storage mgr') memory_id ?t = Inr (Some m2)"
    by simp
  have st: "settings mgr' = settings mgr"
    using pf same s2 by simp
  show ?thesis
    using m' got st same uf resolve_tenant_settings[OF st, of tenant] by simp
qed

lemma new_memory_props:
  assumes "new_memory env tx md tenant mgr = (m0, mgr1)"
  shows "version m0 = 1 \<and> versions m0 = [] \<and> tenant_id m0 = tenant
         \<and> storage mgr1 = storage mgr \<and> settings mgr1 = settings mgr"
  using assms by (auto simp: new_memory_def read_clock_def draw_uuid_def)

lemma apply_ttl_frame:
  assumes "apply_ttl env ttl_days m mgr = (Inr m1, mgr1)"
  shows "version m1 = version m \<and> versions m1 = versions m \<and> tenant_id m1 = tenant_id m
         \<and> mem_id m1 = mem_id m
         \<and> storage mgr1 = storage mgr \<and> settings mgr1 = settings mgr"
  using assms
  by (auto simp: apply_ttl_def set_ttl_def read_clock_def split: option.splits sum.splits)

lemma embed_new_frame:
  assumes "embed_new env ge tx m mgr = (m1, mgr1)"
  shows "version m1 = version m \<and> versions m1 = versions m \<and> tenant_id m1 = tenant_id m
         \<and> mem_id m1 = mem_id m
         \<and> storage mgr1 = storage mgr \<and> settings mgr1 = settings mgr"
proof (cases ge)
  case False
  with assms show ?thesis by (simp add: embed_new_def)
next
  case True
  obtain r mgr2 where e: "generate_embedding_with_retry env tx mgr = (r, mgr2)"
    by (cases "generate_embedding_with_retry env tx mgr")
  from generate_embedding_frame[OF e] assms True e show ?thesis
    by (cases r) (auto simp: embed_new_def)
qed

lemma persist_new_result:
  assumes "persist_new env tenant m mgr = (Inr m', mgr')"
  shows "m' = m \<and> storage_save (storage mgr) m = Inr (storage mgr')
         \<and> settings mgr' = settings mgr"
  using assms
  by (auto simp: persist_new_def save_with_retry_eq Let_def split_beta split: sum.splits)

lemma persist_new_succeeds: "\<exists>mgr'. persist_new env tenant m mgr = (Inr m, mgr')"
  by (simp add: persist_new_def save_with_retry_eq storage_save_def Let_def split_beta)

lemma storage_get_saved:
  "storage_save b m = Inr b' \<Longrightarrow> storage_get b' (mem_id m) (tenant_id m) = Inr (Some m)"
  by (auto simp: storage_save_def storage_get_def Let_def update_conv' split: if_splits)

lemma manager_save_stages:
  assumes res: "manager_save env mgr tx md tenant ge ttl = (Inr m, mgr')"
  shows "\<exists>m0 mgr1 m1 mgr2 m2 mgr3.
           new_memory env tx (case md of None \<Rightarrow> default_metadata | Some x \<Rightarrow> x)
             (resolve_tenant mgr tenant) mgr = (m0, mgr1)
         \<and> apply_ttl env ttl m0 mgr1 = (Inr m1, mgr2)
         \<and> embed_new env ge tx m1 mgr2 = (m2, mgr3)
         \<and> persist_new env (resolve_tenant mgr tenant) m2 mgr3 = (Inr m, mgr')"
proof -
  let ?t = "resolve_tenant mgr tenant"
  let ?md = "case md of None \<Rightarrow> default_metadata | Some x \<Rightarrow> x"
  have nb: "\<not> (tx = [] \<or> strip tx = [])"
    using res by (auto simp: manager_save_def)
  obtain m0 mgr1 where n: "new_memory env tx ?md ?t mgr = (m0, mgr1)"
    by (cases "new_memory env tx ?md ?t mgr")
  obtain r mgr2 where a: "apply_ttl env ttl m0 mgr1 = (r, mgr2)"
    by (cases "apply_ttl env ttl m0 mgr1")
  obtain m2 mgr3 where e: "embed_new env ge tx (projr r) mgr2 = (m2, mgr3)"
    by (cases "embed_new env ge tx (projr r) mgr2")
  show ?thesis
  proof (cases r)
    case (Inl err)
    with res nb n a show ?thesis by (simp add: manager_save_def)
  next
    case (Inr m1)
    with res nb n a e
    have "persist_new env ?t m2 mgr3 = (Inr m, mgr')"
      by (simp add: manager_save_def)
    with n a e Inr show ?thesis by simp
  qed
qed

lemma manager_save_fresh:
  assumes res: "manager_save env mgr tx md tenant ge ttl = (Inr m, mgr')"
  shows "version m = 1 \<and> versions m = [] \<and> tenant_id m = resolve_tenant mgr tenant
         \<and> storage_get (storage mgr') (mem_id m) (tenant_id m) = Inr (Some m)
         \<and> settings mgr' = settings mgr"
proof -
  from manager_save_stages[OF res] obtain m0 mgr1 m1 mgr2 m2 mgr3 where
    n: "new_memory env tx (case md of None \<Rightarrow> default_metadata | Some x \<Rightarrow> x)
             (resolve_tenant mgr tenant) mgr = (m0, mgr1)"
    and a: "apply_ttl env ttl m0 mgr1 = (Inr m1, mgr2)"
    and e: "embed_new env ge tx m1 mgr2 = (m2, mgr3)"
    and p: "persist_new env (resolve_tenant mgr tenant) m2 mgr3 = (Inr m, mgr')"
    by blast
  note nf = new_memory_props[OF n]
  note af = apply_ttl_frame[OF a]
  note ef = embed_new_frame[OF e]
  note pf = persist_new_result[OF p]
  from pf have "storage_save (storage mgr3) m = Inr (storage mgr')" by simp
  from storage_get_saved[OF this] have "storage_get (storage mgr') (mem_id m) (tenant_id m) = Inr (Some m)" .
  moreover have "version m = 1" "versions m = []" "tenant_id m = resolve_tenant mgr tenant"
    "settings mgr' = settings mgr"
    using nf af ef pf by simp_all
  ultimately show ?thesis by simp
qed

lemma manager_save_succeeds:
  assumes nb: "\<not> (tx = [] \<or> strip tx = [])"
    and no_ttl: "ttl = None \<or> ttl = Some 0"
    and no_default: "default_ttl_days (settings mgr) = None \<or> default_ttl_days (settings mgr) = Some 0"
  shows "\<exists>m mgr'. manager_save env mgr tx md tenant ge ttl = (Inr m, mgr')"
proof -
  let ?t = "resolve_tenant mgr tenant"
  let ?md = "case md of None \<Rightarrow> default_metadata | Some x \<Rightarrow> x"
  obtain m0 mgr1 where n: "new_memory env tx ?md ?t mgr = (m0, mgr1)"
    by (cases "new_memory env tx ?md ?t mgr")
  have "settings mgr1 = settings mgr"
    using new_memory_props[OF n] by simp
  with no_ttl no_default have "chosen_ttl mgr1 ttl = None"
    by (auto simp: chosen_ttl_def)
  then have a: "apply_ttl env ttl m0 mgr1 = (Inr m0, mgr1)"
    by (simp add: apply_ttl_def)
  obtain m2 mgr3 where e: "embed_new env ge tx m0 mgr1 = (m2, mgr3)"
    by (cases "embed_new env ge tx m0 mgr1")
  from persist_new_succeeds obtain mgr' where "persist_new env ?t m2 mgr3 = (Inr m2, mgr')"
    by blast
  with nb n a e show ?thesis
    by (simp add: manager_save_def)
qed

lemma versioned_updates_inv:
  assumes ver: "enable_versioning (settings mgr)"
    and found: "storage_get (storage mgr) memory_id (resolve_tenant mgr tenant) = Inr (Some m)"
    and inv: "int (length (versions m)) = version m - 1"
    and run: "manager_updates env mgr memory_id tenant args = Inr mgr'"
  shows "\<exists>m'. storage_get (storage mgr') memory_id (resolve_tenant mgr tenant) = Inr (Some m')
           \<and> version m' = version m + int (length args)
           \<and> int (length (versions m')) = version m' - 1"
  using assms
proof (induction args arbitrary: mgr m)
  case Nil
  then show ?case by simp
next
  case (Cons a args)
  obtain tx md where a: "a = (tx, md)" by (cases a)
  obtain r mgr1 where step: "manager_update env mgr memory_id tx md tenant = (r, mgr1)"
    by (cases "manager_update env mgr memory_id tx md tenant")
  from Cons.prems(4) a step obtain m1 where r: "r = Inr m1"
    by (cases r) auto
  with Cons.prems(4) a step have rest: "manager_updates env mgr1 memory_id tenant args = Inr mgr'"
    by simp
  from step r have step': "manager_update env mgr memory_id tx md tenant = (Inr m1, mgr1)"
    by simp
  note sv = manager_update_versioned[OF Cons.prems(2) Cons.prems(1) step']
  have st: "settings mgr1 = settings mgr"
    using sv by simp
  have ver1: "enable_versioning (settings mgr1)"
    using st Cons.prems(1) by simp
  have found1: "storage_get (storage mgr1) memory_id (resolve_tenant mgr1 tenant) = Inr (Some m1)"
    using sv by simp
  have inv1: "int (length (versions m1)) = version m1 - 1"
    using sv Cons.prems(3) by simp
  from Cons.IH[OF ver1 found1 inv1 rest] obtain m' where
    "storage_get (storage mgr') memory_id (resolve_tenant mgr1 tenant) = Inr (Some m')"
    "version m' = version m1 + int (length args)"
    "int (length (versions m')) = version m' - 1"
    by blast
  with sv resolve_tenant_settings[OF st, of tenant] show ?case
    by (intro exI[of _ m']) simp
qed


subsection \<open>Versions\<close>

text \<open>
  C2, as the code has it. A successful update of a stored memory raises its version
  by exactly one, and gives it one more history entry, when versioning is enabled; it
  leaves version and history as they were when versioning is disabled. With
  versioning enabled, after N successful updates of a memory that \<open>save\<close> has just
  created, the stored memory has version \<open>1 + N\<close> and a history of \<open>version - 1\<close>
  entries.
\<close>

theorem update_version_history:
  "(storage_get (storage mgr) memory_id (resolve_tenant mgr tenant) = Inr (Some m)
      \<and> manager_update env mgr memory_id tx md tenant = (Inr m1, mgr1)
     \<longrightarrow> (if enable_versioning (settings mgr)
          then version m1 = version m + 1 \<and> length (versions m1) = Suc (length (versions m))
          else version m1 = version m \<and> versions m1 = versions m))
   \<and> (enable_versioning (settings mgr0)
      \<and> manager_save env mgr0 tx0 md0 tenant0 generate_embedding ttl_days = (Inr m0, mgrS)
      \<and> manager_updates env mgrS (mem_id m0) tenant0 args = Inr mgr'
     \<longrightarrow> (\<exists>m'. storage_get (storage mgr') (mem_id m0) (tenant_id m0) = Inr (Some m')
            \<and> version m' = 1 + int (length args)
            \<and> int (length (versions m')) = version m' - 1))"
proof (intro conjI impI)
  assume h: "storage_get (storage mgr) memory_id (resolve_tenant mgr tenant) = Inr (Some m)
      \<and> manager_update env mgr memory_id tx md tenant = (Inr m1, mgr1)"
  then have found: "storage_get (storage mgr) memory_id (resolve_tenant mgr tenant) = Inr (Some m)"
    and res: "manager_update env mgr memory_id tx md tenant = (Inr m1, mgr1)"
    by simp_all
  show "if enable_versioning (settings mgr)
          then version m1 = version m + 1 \<and> length (versions m1) = Suc (length (versions m))
          else version m1 = version m \<and> versions m1 = versions m"
  proof (cases "enable_versioning (settings mgr)")
    case True
    with manager_update_versioned[OF found True res] show ?thesis by simp
  next
    case False
    with manager_update_unversioned[OF found False res] show ?thesis by simp
  qed
next
  assume h: "enable_versioning (settings mgr0)
      \<and> manager_save env mgr0 tx0 md0 tenant0 generate_embedding ttl_days = (Inr m0, mgrS)
      \<and> manager_updates env mgrS (mem_id m0) tenant0 args = Inr mgr'"
  then have ver0: "enable_versioning (settings mgr0)"
    and sv: "manager_save env mgr0 tx0 md0 tenant0 generate_embedding ttl_days = (Inr m0, mgrS)"
    and run: "manager_updates env mgrS (mem_id m0) tenant0 args = Inr mgr'"
    by simp_all
  note fr = manager_save_fresh[OF sv]
  have st: "settings mgrS = settings mgr0"
    using fr by simp
  have tid: "tenant_id m0 = resolve_tenant mgr0 tenant0"
    using fr by blast
  have t: "resolve_tenant mgrS tenant0 = tenant_id m0"
    using resolve_tenant_settings[OF st, of tenant0] by (simp only: tid)
  have ver: "enable_versioning (settings mgrS)"
    using ver0 st by simp
  have got: "storage_get (storage mgrS) (mem_id m0) (tenant_id m0) = Inr (Some m0)"
    using fr by blast
  have found: "storage_get (storage mgrS) (mem_id m0) (resolve_tenant mgrS tenant0) = Inr (Some m0)"
    using got by (simp only: t)
  have v0: "version m0 = 1"
    using fr by blast
  have inv: "int (length (versions m0)) = version m0 - 1"
    using fr by simp
  from versioned_updates_inv[OF ver found inv run] obtain m' where
    "storage_get (storage mgr') (mem_id m0) (resolve_tenant mgrS tenant0) = Inr (Some m')"
    "version m' = version m0 + int (length args)"
    "int (length (versions m')) = version m' - 1"
    by blast
  then have "storage_get (storage mgr') (mem_id m0) (tenant_id m0) = Inr (Some m')
            \<and> version m' = 1 + int (length args)
            \<and> int (length (versions m')) = version m' - 1"
    by (simp only: t v0)
  then show "\<exists>m'. storage_get (storage mgr') (mem_id m0) (tenant_id m0) = Inr (Some m')
            \<and> version m' = 1 + int (length args)
            \<and> int (length (versions m')) = version m' - 1"
    by blast
qed

lemma storage_save_embedding:
  assumes "storage_save b m = Inr b'" and "truthy_embedding (embedding m)"
  shows "map_of (embeddings b') (mem_id m, tenant_id m) = embedding m"
proof -
  from assms(2) obtain e where e: "embedding m = Some e" "e \<noteq> []"
    by (cases "embedding m") auto
  with assms(1) show ?thesis
    by (auto simp: storage_save_def Let_def update_conv')
qed


text \<open>
  C10. With versioning enabled, \<open>update\<close> with neither content nor metadata on a stored
  memory succeeds: the memory returned has one more version record, with the old
  content, the old \<open>updated_at\<close> and an empty list of changed fields, its version is
  one higher and its \<open>updated_at\<close> is the clock reading. It is persisted: the
  backend after the call is the result of the backend's \<open>save\<close> of that memory, which
  holds it under its own id and tenant, and under the id and tenant asked for, and
  holds its embedding when it has one. One MemoryUpdatedEvent with the memory and the
  previous version number is published.
\<close>

theorem no_field_update_versions_and_saves:
  assumes ver: "enable_versioning (settings mgr)"
    and found: "storage_get (storage mgr) memory_id (resolve_tenant mgr tenant) = Inr (Some m)"
    and v1: "1 \<le> version m"
  shows "\<exists>m' mgr' eid ts.
           m' = m\<lparr>versions := versions m @
                      [\<lparr>v_version = version m, v_created_at = updated_at m,
                        v_content = content m, v_changed_fields = []\<rparr>],
                    version := version m + 1,
                    updated_at := utcnow env (clock_reads mgr)\<rparr>
         \<and> manager_update env mgr memory_id None None tenant = (Inr m', mgr')
         \<and> storage_save
               ((storage mgr)\<lparr>memories :=
                  AList.update (memory_id, resolve_tenant mgr tenant) m' (memories (storage mgr))\<rparr>) m'
             = Inr (storage mgr')
         \<and> storage_get (storage mgr') (mem_id m) (tenant_id m) = Inr (Some m')
         \<and> storage_get (storage mgr') memory_id (resolve_tenant mgr tenant) = Inr (Some m')
         \<and> (truthy_embedding (embedding m) \<longrightarrow>
               map_of (embeddings (storage mgr')) (mem_id m, tenant_id m) = embedding m)
         \<and> published mgr' = published mgr @ [MemoryUpdatedEvent eid ts m' (version m)]"
proof -
  let ?t = "resolve_tenant mgr tenant"
  let ?mgr1 = "record_metric (OperationMetric ''get'' ?t ''success'') mgr"
  let ?m2 = "m\<lparr>versions := versions m @
                        [\<lparr>v_version = version m, v_created_at = updated_at m,
                          v_content = content m, v_changed_fields = []\<rparr>],
                      version := version m + 1,
                      updated_at := utcnow env (clock_reads mgr)\<rparr>"
  have u: "update_fields env None None m ?mgr1 = (Inr m, ?mgr1)"
    by (simp add: update_fields_def)
  have sv: "snapshot_version env None None m ?mgr1 = (Inr ?m2, snd (read_clock env ?mgr1))"
    using ver v1
    by (simp add: snapshot_version_def create_version_def changed_fields_of_def read_clock_def
        record_metric_def)
  obtain mgr' where p: "persist_update env ?t (version m) ?m2
         (write_through (memory_id, ?t) ?m2 (snd (read_clock env ?mgr1))) = (Inr ?m2, mgr')"
    using persist_update_succeeds by blast
  have res: "manager_update env mgr memory_id None None tenant = (Inr ?m2, mgr')"
    using u sv p by (simp add: manager_update_found[OF found])
  note pf = persist_update_result[OF p]
  from pf have saved: "storage_save ((storage mgr)\<lparr>memories := AList.update (memory_id, ?t) ?m2 (memories (storage mgr))\<rparr>) ?m2
                  = Inr (storage mgr')"
    by simp
  from storage_get_after_save[OF saved]
  have got: "storage_get (storage mgr') memory_id ?t = Inr (Some ?m2)"
    "storage_get (storage mgr') (mem_id m) (tenant_id m) = Inr (Some ?m2)"
    by simp_all
  have emb: "map_of (embeddings (storage mgr')) (mem_id m, tenant_id m) = embedding m"
    if "truthy_embedding (embedding m)"
    using storage_save_embedding[OF saved] that by simp
  from pf obtain eid ts where ev: "published mgr' = published mgr @ [MemoryUpdatedEvent eid ts ?m2 (version m)]"
    by auto
  show ?thesis
    using res saved got emb ev by blast
qed


subsection \<open>Concrete runs\<close>

lemma example_found:
  "storage_get (storage (example_manager v)) ''m1'' (resolve_tenant (example_manager v) (Some ''A'')) =
     Inr (Some (example_memory ''m1'' ''A'' (Some [1, 0])))"
  by (simp add: storage_get_def example_manager_def example_backend_def resolve_tenant_def)

text \<open>With versioning disabled a successful update of the content returns the memory with
  the version it had, 1.\<close>

theorem update_without_versioning_counterexample:
  "storage_get (storage (example_manager False)) ''m1'' ''A'' =
     Inr (Some (example_memory ''m1'' ''A'' (Some [1, 0])))
   \<and> version (example_memory ''m1'' ''A'' (Some [1, 0])) = 1
   \<and> map_sum id version
       (fst (manager_update example_env (example_manager False) ''m1'' (Some ''second'') None (Some ''A'')))
     = Inr 1"
proof -
  have r: "resolve_tenant (example_manager False) (Some ''A'') = ''A''"
    by (simp add: resolve_tenant_def)
  have nv: "\<not> enable_versioning (settings (example_manager False))"
    by (simp add: example_manager_def)
  have e: "generate_embedding_with_retry example_env ''second'' mgr =
             (Inr [1, 0], record_metric (EmbeddingMetric ''success'') (mgr\<lparr>embed_calls := Suc (embed_calls mgr)\<rparr>))" for mgr
    by (simp add: generate_embedding_with_retry_def numeral_2_eq_2 embed_once_def example_env_def)
  have s: "strip ''second'' = ''second''"
    by (simp add: strip_def isspace_def)
  have "map_sum id version
       (fst (manager_update example_env (example_manager False) ''m1'' (Some ''second'') None (Some ''A'')))
     = Inr 1"
    using nv
    by (simp add: manager_update_found[OF example_found] r update_fields_def e s snapshot_version_def
        persist_update_def save_with_retry_eq storage_save_def Let_def split_beta example_memory_def)
  moreover have "storage_get (storage (example_manager False)) ''m1'' ''A'' =
     Inr (Some (example_memory ''m1'' ''A'' (Some [1, 0])))"
    using example_found[of False] by (simp only: r)
  ultimately show ?thesis
    by (simp add: example_memory_def)
qed

theorem update_version_history_witness:
  "(\<exists>m1 mgr1. manager_update example_env (example_manager True) ''m1'' (Some ''second'') None (Some ''A'')
                  = (Inr m1, mgr1)
              \<and> version m1 = 2 \<and> length (versions m1) = 1)
   \<and> (\<exists>m1 mgr1. manager_update example_env (example_manager False) ''m1'' (Some ''second'') None (Some ''A'')
                  = (Inr m1, mgr1)
              \<and> version m1 = 1 \<and> versions m1 = [])
   \<and> (\<exists>m0 mgrS mgr' m'.
         manager_save example_env (example_manager True) ''first'' None (Some ''A'') True None = (Inr m0, mgrS)
         \<and> manager_updates example_env mgrS (mem_id m0) (Some ''A'')
              [(Some ''second'', None), (None, None)] = Inr mgr'
         \<and> storage_get (storage mgr') (mem_id m0) (tenant_id m0) = Inr (Some m')
         \<and> version m' = 3 \<and> length (versions m') = 2)"
proof -
  let ?m = "example_memory ''m1'' ''A'' (Some [1, 0])"
  have m: "version ?m = 1" "versions ?m = []"
    by (simp_all add: example_memory_def)
  have ok1: "\<not> (truthy_text (Some ''second'') \<and> strip (the (Some ''second'')) = [])"
    by (simp add: strip_def isspace_def)
  have ok2: "\<not> (truthy_text None \<and> strip (the None) = [])"
    by simp
  have verT: "enable_versioning (settings (example_manager True))"
    by (simp add: example_manager_def)
  have vT: "enable_versioning (settings (example_manager True)) \<longrightarrow> 1 \<le> version ?m"
    by (simp add: m)
  from manager_update_succeeds[OF example_found ok1 vT] obtain a1 ma1 where
    sT: "manager_update example_env (example_manager True) ''m1'' (Some ''second'') None (Some ''A'') = (Inr a1, ma1)"
    by blast
  from update_version_history[THEN conjunct1, rule_format, OF conjI[OF example_found sT]] verT
  have "version a1 = 2 \<and> length (versions a1) = 1"
    by (simp add: m)
  with sT have part1: "\<exists>m1 mgr1. manager_update example_env (example_manager True) ''m1'' (Some ''second'') None (Some ''A'')
                  = (Inr m1, mgr1) \<and> version m1 = 2 \<and> length (versions m1) = 1"
    by blast
  have verF: "\<not> enable_versioning (settings (example_manager False))"
    by (simp add: example_manager_def)
  have vF: "enable_versioning (settings (example_manager False)) \<longrightarrow> 1 \<le> version ?m"
    by (simp add: m)
  from manager_update_succeeds[OF example_found ok1 vF] obtain b1 mb1 where
    sF: "manager_update example_env (example_manager False) ''m1'' (Some ''second'') None (Some ''A'') = (Inr b1, mb1)"
    by blast
  from update_version_history[THEN conjunct1, rule_format, OF conjI[OF example_found sF]] verF
  have "version b1 = 1 \<and> versions b1 = []"
    by (simp add: m)
  with sF have part2: "\<exists>m1 mgr1. manager_update example_env (example_manager False) ''m1'' (Some ''second'') None (Some ''A'')
                  = (Inr m1, mgr1) \<and> version m1 = 1 \<and> versions m1 = []"
    by blast
  have nb: "\<not> (''first'' = [] \<or> strip ''first'' = [])"
    by (simp add: strip_def isspace_def)
  have nd: "default_ttl_days (settings (example_manager True)) = None
            \<or> default_ttl_days (settings (example_manager True)) = Some 0"
    by (simp add: example_manager_def)
  from manager_save_succeeds[OF nb _ nd, of None example_env None "Some ''A''" True] obtain m0 mgrS where
    sv: "manager_save example_env (example_manager True) ''first'' None (Some ''A'') True None = (Inr m0, mgrS)"
    by auto
  note fr = manager_save_fresh[OF sv]
  have st: "settings mgrS = settings (example_manager True)"
    using fr by blast
  have tid: "tenant_id m0 = ''A''"
    using fr by (simp add: resolve_tenant_def)
  have t: "resolve_tenant mgrS (Some ''A'') = ''A''"
    by (simp add: resolve_tenant_def)
  have found0: "storage_get (storage mgrS) (mem_id m0) (resolve_tenant mgrS (Some ''A'')) = Inr (Some m0)"
    using fr tid t by simp
  have v0: "enable_versioning (settings mgrS) \<longrightarrow> 1 \<le> version m0"
    using fr by simp
  have verS: "enable_versioning (settings mgrS)"
    using st verT by simp
  from manager_update_succeeds[OF found0 ok1 v0] obtain c1 mc1 where
    s1: "manager_update example_env mgrS (mem_id m0) (Some ''second'') None (Some ''A'') = (Inr c1, mc1)"
    by blast
  note f1 = manager_update_versioned[OF found0 verS s1]
  have found1: "storage_get (storage mc1) (mem_id m0) (resolve_tenant mc1 (Some ''A'')) = Inr (Some c1)"
    using f1 by simp
  have v1: "enable_versioning (settings mc1) \<longrightarrow> 1 \<le> version c1"
    using f1 by simp
  from manager_update_succeeds[OF found1 ok2 v1] obtain c2 mc2 where
    s2: "manager_update example_env mc1 (mem_id m0) None None (Some ''A'') = (Inr c2, mc2)"
    by blast
  have run: "manager_updates example_env mgrS (mem_id m0) (Some ''A'')
              [(Some ''second'', None), (None, None)] = Inr mc2"
    using s1 s2 by simp
  from update_version_history[THEN conjunct2, rule_format, OF conjI[OF verT conjI[OF sv run]]]
  obtain m' where "storage_get (storage mc2) (mem_id m0) (tenant_id m0) = Inr (Some m')"
    "version m' = 3" "length (versions m') = 2"
    by auto
  with sv run have part3: "\<exists>m0 mgrS mgr' m'.
         manager_save example_env (example_manager True) ''first'' None (Some ''A'') True None = (Inr m0, mgrS)
         \<and> manager_updates example_env mgrS (mem_id m0) (Some ''A'')
              [(Some ''second'', None), (None, None)] = Inr mgr'
         \<and> storage_get (storage mgr') (mem_id m0) (tenant_id m0) = Inr (Some m')
         \<and> version m' = 3 \<and> length (versions m') = 2"
    by blast
  from part1 part2 part3 show ?thesis by blast
qed

theorem no_field_update_versions_and_saves_witness:
  "enable_versioning (settings (example_manager True))
   \<and> 1 \<le> version (example_memory ''m1'' ''A'' (Some [1, 0]))
   \<and> truthy_embedding (embedding (example_memory ''m1'' ''A'' (Some [1, 0])))
   \<and> (\<exists>mgr' eid ts.
        manager_update example_env (example_manager True) ''m1'' None None (Some ''A'') =
          (Inr ((example_memory ''m1'' ''A'' (Some [1, 0]))
                 \<lparr>versions := [\<lparr>v_version = 1, v_created_at = 5, v_content = ''note'',
                                v_changed_fields = []\<rparr>],
                   version := 2, updated_at := 10\<rparr>), mgr')
        \<and> storage_get (storage mgr') ''m1'' ''A'' =
            Inr (Some ((example_memory ''m1'' ''A'' (Some [1, 0]))
                 \<lparr>versions := [\<lparr>v_version = 1, v_created_at = 5, v_content = ''note'',
                                v_changed_fields = []\<rparr>],
                   version := 2, updated_at := 10\<rparr>))
        \<and> map_of (embeddings (storage mgr')) (''m1'', ''A'') = Some [1, 0]
        \<and> published mgr' =
            [MemoryUpdatedEvent eid ts
               ((example_memory ''m1'' ''A'' (Some [1, 0]))
                 \<lparr>versions := [\<lparr>v_version = 1, v_created_at = 5, v_content = ''note'',
                                v_changed_fields = []\<rparr>],
                   version := 2, updated_at := 10\<rparr>) 1])"
proof -
  let ?m = "example_memory ''m1'' ''A'' (Some [1, 0])"
  have ver: "enable_versioning (settings (example_manager True))"
    by (simp add: example_manager_def)
  have v1: "1 \<le> version ?m"
    by (simp add: example_memory_def)
  have te: "truthy_embedding (embedding ?m)"
    by (simp add: example_memory_def)
  have c: "utcnow example_env (clock_reads (example_manager True)) = 10"
    "published (example_manager True) = []"
    "resolve_tenant (example_manager True) (Some ''A'') = ''A''"
    by (simp_all add: example_env_def example_manager_def resolve_tenant_def)
  have m: "versions ?m = []" "version ?m = 1" "updated_at ?m = 5" "content ?m = ''note''"
    "mem_id ?m = ''m1''" "tenant_id ?m = ''A''" "embedding ?m = Some [1, 0]"
    by (simp_all add: example_memory_def)
  from no_field_update_versions_and_saves[OF ver example_found v1, of example_env]
  obtain m' mgr' eid ts where
    r: "m' = ?m\<lparr>versions := [\<lparr>v_version = 1, v_created_at = 5, v_content = ''note'',
                                v_changed_fields = []\<rparr>], version := 2, updated_at := 10\<rparr>"
    "manager_update example_env (example_manager True) ''m1'' None None (Some ''A'') = (Inr m', mgr')"
    "storage_get (storage mgr') ''m1'' ''A'' = Inr (Some m')"
    "map_of (embeddings (storage mgr')) (''m1'', ''A'') = Some [1, 0]"
    "published mgr' = [MemoryUpdatedEvent eid ts m' 1]"
    using te by (auto simp: c m)
  then show ?thesis
    using ver v1 te by blast
qed


end
